theory Spec2Isabelle
  imports Main "HOL-Library.AList"
begin

section \<open>JavaScript values and the built-ins the client relies on\<close>

text \<open>
  The client is TypeScript. A value whose type the source declares is modelled at that
  type: an interface as a record, \<open>string | undefined\<close> as \<open>string option\<close>. A response
  body is taken to have the shape the call site declares, as the client itself takes it.
  A value of type \<open>any\<close> (the parsed body of an error response, the argument of
  \<open>JSON.stringify\<close>) is a \<open>jsval\<close>; the pairs of a \<open>JObj\<close> are the object's own properties,
  each key listed once. Strings are byte strings: text in UTF-8, a header value as the
  bytes received.

  A \<open>number\<close> is \<open>NaN\<close>, an infinity or an integer-valued Number. \<open>Num n\<close> is the Number of
  the integer \<open>n\<close>: \<open>n\<close> itself when \<open>n\<close> is a double, as every integer up to \<open>2^53\<close> in
  magnitude is, and the double nearest to \<open>n\<close> otherwise; what the built-ins below return
  is always a double. Fractions are left out: no operation computes with them, and the
  tool schemas restrict every numeric argument to integers. The Number \<open>-0\<close> is not told
  apart from \<open>0\<close>: both are falsy and both are printed \<open>0\<close>.
\<close>

datatype number = NaN | Num int | Infinity | NegInfinity

datatype jsval =
    JUndefined
  | JNull
  | JBool bool
  | JNum number
  | JStr string
  | JArr "jsval list"
  | JObj "(string \<times> jsval) list"

subsection \<open>Truthiness (ToBoolean)\<close>

fun truthy_number :: "number \<Rightarrow> bool" where
  "truthy_number NaN = False"
| "truthy_number (Num n) = (n \<noteq> 0)"
| "truthy_number Infinity = True"
| "truthy_number NegInfinity = True"

fun truthy :: "jsval \<Rightarrow> bool" where
  "truthy JUndefined = False"
| "truthy JNull = False"
| "truthy (JBool b) = b"
| "truthy (JNum n) = truthy_number n"
| "truthy (JStr s) = (s \<noteq> [])"
| "truthy (JArr xs) = True"
| "truthy (JObj kvs) = True"

text \<open>Truthiness of an optional string, number or boolean (\<open>None\<close> is \<open>undefined\<close>).\<close>

fun truthy_str :: "string option \<Rightarrow> bool" where
  "truthy_str None = False"
| "truthy_str (Some s) = (s \<noteq> [])"

fun truthy_num :: "number option \<Rightarrow> bool" where
  "truthy_num None = False"
| "truthy_num (Some n) = truthy_number n"

fun truthy_bool :: "bool option \<Rightarrow> bool" where
  "truthy_bool None = False"
| "truthy_bool (Some b) = b"

subsection \<open>Number to string, string to number\<close>

definition digit_char :: "nat \<Rightarrow> char" where
  "digit_char d = ''0123456789'' ! d"

text \<open>The decimal digits of an integer that is not negative.\<close>

function digits :: "int \<Rightarrow> string" where
  "digits n = (if n < 10 then [digit_char (nat n)]
               else digits (n div 10) @ [digit_char (nat (n mod 10))])"
  by pat_completeness auto
termination
  by (relation "measure nat") auto

declare digits.simps [simp del]

text \<open>
  The Number of a mathematical integer: rounding to the nearest double, ties to the even
  significand, beyond the largest double to infinity. \<open>round_magnitude\<close> rounds an integer
  that is not negative (\<open>None\<close> is infinity): below \<open>2^53\<close> it is a double; otherwise
  its leading 53 bits are kept and the rest, \<open>r\<close>, decides the rounding.
\<close>

function bit_length :: "int \<Rightarrow> nat" where
  "bit_length n = (if n \<le> 0 then 0 else Suc (bit_length (n div 2)))"
  by pat_completeness auto
termination
  by (relation "measure nat") auto

declare bit_length.simps [simp del]

definition round_magnitude :: "int \<Rightarrow> int option" where
  "round_magnitude m =
     (if m < 9007199254740992 then Some m
      else (let e = bit_length m - 53;
                q = m div 2 ^ e;
                r = m mod 2 ^ e;
                half = 2 ^ (e - 1);
                q' = (if half < r \<or> (r = half \<and> odd q) then q + 1 else q);
                v = q' * 2 ^ e
            in if 2 ^ 1024 \<le> v then None else Some v))"

definition to_double :: "int \<Rightarrow> number" where
  "to_double n =
     (case round_magnitude \<bar>n\<bar> of
        None \<Rightarrow> if n < 0 then NegInfinity else Infinity
      | Some v \<Rightarrow> Num (if n < 0 then - v else v))"

text \<open>
  \<open>String(n)\<close> and \<open>${n}\<close> in a template literal (Number::toString, radix 10) on an
  integer-valued Number. The digits printed are those of the decimal with the fewest
  significant digits that rounds to the Number, the nearest to it if several do:
  \<open>shortest x j\<close> looks for it among the multiples of \<open>10^j\<close> next to the double \<open>x\<close>, then
  of \<open>10^(j-1)\<close>, down to \<open>x\<close> itself. Below \<open>2^53\<close> that decimal is the integer itself. A
  decimal below \<open>10^21\<close> is printed in full, a larger one in exponent form.
\<close>

fun shortest :: "int \<Rightarrow> nat \<Rightarrow> int" where
  "shortest x j =
     (if j = 0 then x
      else (let p = 10 ^ j;
                lo = (x div p) * p;
                hi = lo + p;
                lo_ok = (round_magnitude lo = Some x);
                hi_ok = (round_magnitude hi = Some x)
            in if lo_ok \<and> hi_ok then
                 (if x - lo < hi - x then lo
                  else if hi - x < x - lo then hi
                  else if even (x div p) then lo else hi)
               else if lo_ok then lo
               else if hi_ok then hi
               else shortest x (j - 1)))"

declare shortest.simps [simp del]

definition exponent_text :: "int \<Rightarrow> string" where
  "exponent_text c =
     (let ds = digits c;
          fraction = rev (dropWhile (\<lambda>d. d = CHR ''0'') (rev (tl ds)))
      in hd ds # (if fraction = [] then [] else CHR ''.'' # fraction)
         @ ''e+'' @ digits (int (length ds - 1)))"

definition magnitude_text :: "int \<Rightarrow> string" where
  "magnitude_text m =
     (if m < 9007199254740992 then digits m
      else (case round_magnitude m of
              None \<Rightarrow> ''Infinity''
            | Some x \<Rightarrow>
                (let c = shortest x (length (digits x) - 1)
                 in if c < 10 ^ 21 then digits c else exponent_text c)))"

fun String_number :: "number \<Rightarrow> string" where
  "String_number NaN = ''NaN''"
| "String_number Infinity = ''Infinity''"
| "String_number NegInfinity = ''-Infinity''"
| "String_number (Num n) =
     (if n < 0 then CHR ''-'' # magnitude_text (- n) else magnitude_text n)"

text \<open>
  \<open>Number.parseInt(s, 10)\<close>: leading white space is skipped, one sign is read, then the
  longest run of decimal digits; no digit gives \<open>NaN\<close>, and otherwise the result is the
  Number of the integer that the digits write, with the sign (beyond 20 significant
  digits the language lets an engine approximate that integer; V8, the engine of the
  Workers runtime, does not). The argument is a header value, whose characters are
  single bytes, so the white space characters are the code points 9 to 13, 32 and 160.
\<close>

definition isWhiteSpace :: "char \<Rightarrow> bool" where
  "isWhiteSpace c = ((of_char c :: nat) \<in> {9, 10, 11, 12, 13, 32, 160})"

definition isDigit :: "char \<Rightarrow> bool" where
  "isDigit c = (48 \<le> (of_char c :: nat) \<and> (of_char c :: nat) \<le> 57)"

definition digits_value :: "string \<Rightarrow> int" where
  "digits_value ds = foldl (\<lambda>acc c. 10 * acc + (of_char c - 48)) 0 ds"

definition parseInt :: "string \<Rightarrow> number" where
  "parseInt s =
     (let t = dropWhile isWhiteSpace s;
          (neg, r) = (case t of
                        [] \<Rightarrow> (False, [])
                      | c # cs \<Rightarrow> if c = CHR ''-'' then (True, cs)
                                 else if c = CHR ''+'' then (False, cs)
                                 else (False, t));
          z = takeWhile isDigit r
      in if z = [] then NaN
         else to_double (if neg then - digits_value z else digits_value z))"

subsection \<open>Array.prototype.join, ToString, property access on a value of type any\<close>

fun Array_join :: "string \<Rightarrow> string list \<Rightarrow> string" where
  "Array_join sep [] = []"
| "Array_join sep [x] = x"
| "Array_join sep (x # y # ys) = x @ sep @ Array_join sep (y # ys)"

fun ToString :: "jsval \<Rightarrow> string"
  and element_strings :: "jsval list \<Rightarrow> string list" where
  "ToString JUndefined = ''undefined''"
| "ToString JNull = ''null''"
| "ToString (JBool b) = (if b then ''true'' else ''false'')"
| "ToString (JNum n) = String_number n"
| "ToString (JStr s) = s"
| "ToString (JArr xs) = Array_join '','' (element_strings xs)"
| "ToString (JObj kvs) = ''[object Object]''"
| "element_strings [] = []"
| "element_strings (x # xs) =
     (case x of JUndefined \<Rightarrow> [] | JNull \<Rightarrow> [] | _ \<Rightarrow> ToString x) # element_strings xs"

text \<open>
  \<open>v.key\<close> for \<open>v\<close> of type \<open>any\<close>: reading a property of \<open>null\<close> or \<open>undefined\<close> throws
  a TypeError (\<open>None\<close>); an object gives the property or \<open>undefined\<close>; the keys read by
  the client (\<open>message\<close>, \<open>error\<close>) exist on no primitive and on no array.
\<close>

fun get_prop :: "jsval \<Rightarrow> string \<Rightarrow> jsval option" where
  "get_prop JUndefined key = None"
| "get_prop JNull key = None"
| "get_prop (JObj kvs) key = (case map_of kvs key of None \<Rightarrow> Some JUndefined | Some v \<Rightarrow> Some v)"
| "get_prop v key = Some JUndefined"

subsection \<open>URLSearchParams\<close>

text \<open>
  A \<open>URLSearchParams\<close> object is its list of name-value pairs. \<open>set\<close> replaces the value of
  a name already there and appends a new name at the end; \<open>toString\<close> joins the pairs with
  \<open>&\<close>, each side percent-encoded as \<open>application/x-www-form-urlencoded\<close>.
\<close>

definition URLSearchParams_set :: "(string \<times> string) list \<Rightarrow> string \<Rightarrow> string \<Rightarrow> (string \<times> string) list" where
  "URLSearchParams_set queryParams name v = AList.update name v queryParams"

definition hex_char :: "nat \<Rightarrow> char" where
  "hex_char d = ''0123456789ABCDEF'' ! d"

definition isUrlSafe :: "char \<Rightarrow> bool" where
  "isUrlSafe c =
     (let n = (of_char c :: nat)
      in (48 \<le> n \<and> n \<le> 57) \<or> (65 \<le> n \<and> n \<le> 90) \<or> (97 \<le> n \<and> n \<le> 122) \<or> c \<in> set ''*-._'')"

definition urlencode_char :: "char \<Rightarrow> string" where
  "urlencode_char c =
     (if c = CHR '' '' then ''+''
      else if isUrlSafe c then [c]
      else [CHR ''%'', hex_char ((of_char c :: nat) div 16), hex_char ((of_char c :: nat) mod 16)])"

definition urlencode :: "string \<Rightarrow> string" where
  "urlencode s = concat (map urlencode_char s)"

definition URLSearchParams_toString :: "(string \<times> string) list \<Rightarrow> string" where
  "URLSearchParams_toString queryParams =
     Array_join ''&'' (map (\<lambda>(name, v). urlencode name @ ''='' @ urlencode v) queryParams)"

section \<open>Errors\<close>

text \<open>
  Modelled from the spec: the classes \<open>AuthenticationError\<close>, \<open>RateLimitError\<close> and
  \<open>LoomApiError\<close> come from \<open>utils/errors.js\<close>, which is not among the sources. The spec's
  taxonomy gives what each carries: a message; for a rate limit the retry-after seconds;
  for an API error the status code and, for a 404, a stable error code. Each constructor
  below holds the arguments the client passes to \<open>new\<close>. They are taken to extend \<open>Error\<close>
  and to hand their first argument to its constructor, which stores it as a string.
  \<open>Error\<close>, \<open>TypeError\<close> and \<open>SyntaxError\<close> are the built-in classes.
\<close>

datatype error =
    Error string
  | TypeError string
  | SyntaxError string
  | AuthenticationError string
  | RateLimitError string number
  | LoomApiError jsval nat "string option"

text \<open>
  Modelled from the spec: \<open>e instanceof Error\<close>, the three classes of \<open>utils/errors.js\<close>
  being subclasses of \<open>Error\<close>.
\<close>

fun instanceof_Error :: "error \<Rightarrow> bool" where
  "instanceof_Error (Error m) = True"
| "instanceof_Error (TypeError m) = True"
| "instanceof_Error (SyntaxError m) = True"
| "instanceof_Error (AuthenticationError m) = True"
| "instanceof_Error (RateLimitError m r) = True"
| "instanceof_Error (LoomApiError m st c) = True"

text \<open>
  Modelled from the spec: \<open>e.message\<close>, the string the \<open>Error\<close> constructor stored (the spec's
  "failure's message text"); a message that is not a string is converted by \<open>ToString\<close>.
\<close>

fun error_message :: "error \<Rightarrow> string" where
  "error_message (Error m) = m"
| "error_message (TypeError m) = m"
| "error_message (SyntaxError m) = m"
| "error_message (AuthenticationError m) = m"
| "error_message (RateLimitError m r) = m"
| "error_message (LoomApiError m st c) = ToString m"

text \<open>The TypeError of reading property \<open>key\<close> of \<open>undefined\<close> (the engine's wording).\<close>

definition cannot_read :: "string \<Rightarrow> error" where
  "cannot_read key =
     TypeError (''Cannot read properties of undefined (reading '' @ [CHR 0x27] @ key @ [CHR 0x27] @ '')'')"

section \<open>Credentials (types/env.ts)\<close>

record TenantCredentials =
  accessToken :: "string option"
  baseUrl :: "string option"

text \<open>An inbound request, as far as it is read: \<open>request.headers.get\<close>.\<close>

record Request =
  headers_get :: "string \<Rightarrow> string option"

text \<open>\<open>h || undefined\<close> for \<open>h\<close> a string or \<open>null\<close>.\<close>

definition or_undefined :: "string option \<Rightarrow> string option" where
  "or_undefined h = (if truthy_str h then h else None)"

definition parseTenantCredentials :: "Request \<Rightarrow> TenantCredentials" where
  "parseTenantCredentials request =
     (let headers = headers_get request
      in \<lparr>accessToken = or_undefined (headers ''X-Loom-Access-Token''),
          baseUrl = or_undefined (headers ''X-Loom-Base-URL'')\<rparr>)"

definition validateCredentials :: "TenantCredentials \<Rightarrow> error + unit" where
  "validateCredentials credentials =
     (if \<not> truthy_str (accessToken credentials)
      then Inl (Error ''Missing credentials. Provide X-Loom-Access-Token header.'')
      else Inr ())"

section \<open>HTTP exchange\<close>

text \<open>
  \<open>JSON_stringify v\<close> is the text \<open>JSON.stringify(v)\<close>. A request is what \<open>fetch\<close> receives;
  an absent method means GET.
\<close>

datatype body_text = JSON_stringify jsval

record RequestInit =
  init_method :: "string option"
  init_headers :: "(string \<times> string) list option"
  init_body :: "body_text option"

record http_request =
  req_url :: string
  req_method :: "string option"
  req_headers :: "(string \<times> string) list"
  req_body :: "body_text option"

text \<open>
  A response body is given by what parsing it as JSON yields: \<open>Unparseable m\<close> when
  \<open>JSON.parse\<close> and \<open>response.json()\<close> throw a SyntaxError with message \<open>m\<close>;
  \<open>Parsed v d\<close> when the text is JSON, \<open>v\<close> being the parsed value at type \<open>any\<close> and \<open>d\<close>
  the same value at the type the call site declares (\<open>response.json() as Promise<T>\<close>,
  which the client does not check).
\<close>

datatype 'a body = Unparseable string | Parsed jsval 'a

record 'a http_response =
  resp_status :: nat
  resp_headers_get :: "string \<Rightarrow> string option"
  resp_body :: "'a body"

definition resp_ok :: "'a http_response \<Rightarrow> bool" where
  "resp_ok response = (200 \<le> resp_status response \<and> resp_status response \<le> 299)"

text \<open>
  An operation returns its outcome (\<open>Inl\<close> a thrown error) and the requests it handed to
  \<open>fetch\<close>, in order. \<open>fetch\<close> itself may reject (\<open>Inl\<close>).
\<close>

type_synonym 'a outcome = "(error + 'a) \<times> http_request list"

type_synonym 'a fetch = "http_request \<Rightarrow> error + 'a http_response"

section \<open>The client (client.ts)\<close>

definition API_BASE_URL :: string where
  "API_BASE_URL = ''https://api.loom.com/v1''"

record LoomClientImpl =
  credentials :: TenantCredentials
  this_baseUrl :: string

definition createLoomClient :: "TenantCredentials \<Rightarrow> LoomClientImpl" where
  "createLoomClient creds =
     \<lparr>credentials = creds,
      this_baseUrl = (case baseUrl creds of
                        None \<Rightarrow> API_BASE_URL
                      | Some u \<Rightarrow> if u \<noteq> [] then u else API_BASE_URL)\<rparr>"

definition getAuthHeaders :: "LoomClientImpl \<Rightarrow> error + (string \<times> string) list" where
  "getAuthHeaders this =
     (case accessToken (credentials this) of
        None \<Rightarrow> Inl (AuthenticationError ''No credentials provided. Include X-Loom-Access-Token header.'')
      | Some token \<Rightarrow>
          if token = []
          then Inl (AuthenticationError ''No credentials provided. Include X-Loom-Access-Token header.'')
          else Inr [(''Authorization'', ''Bearer '' @ token), (''Content-Type'', ''application/json'')])"

text \<open>Object spread \<open>{...a, ...b}\<close> on header objects: the entries of \<open>b\<close> override.\<close>

definition spread :: "(string \<times> string) list \<Rightarrow> (string \<times> string) list \<Rightarrow> (string \<times> string) list" where
  "spread a b = foldl (\<lambda>acc (k, v). AList.update k v acc) a b"

text \<open>The message of a generic API failure (the \<open>!response.ok\<close> branch of \<open>request\<close>).\<close>

definition api_error_message :: "'a http_response \<Rightarrow> jsval" where
  "api_error_message response =
     (let message = JStr (''API error: '' @ String_number (Num (int (resp_status response))))
      in case resp_body response of
           Unparseable m \<Rightarrow> message
         | Parsed errorJson d \<Rightarrow>
             (case get_prop errorJson ''message'' of
                None \<Rightarrow> message
              | Some msg \<Rightarrow>
                  if truthy msg then msg
                  else (case get_prop errorJson ''error'' of
                          None \<Rightarrow> message
                        | Some err \<Rightarrow> if truthy err then err else message)))"

definition request :: "LoomClientImpl \<Rightarrow> 'a fetch \<Rightarrow> string \<Rightarrow> RequestInit \<Rightarrow> 'a option outcome" where
  "request this fetch endpoint options =
     (let url = this_baseUrl this @ endpoint
      in case getAuthHeaders this of
           Inl e \<Rightarrow> (Inl e, [])
         | Inr auth \<Rightarrow>
             (let req = \<lparr>req_url = url,
                         req_method = init_method options,
                         req_headers = spread auth (case init_headers options of None \<Rightarrow> [] | Some h \<Rightarrow> h),
                         req_body = init_body options\<rparr>
              in case fetch req of
                   Inl e \<Rightarrow> (Inl e, [req])
                 | Inr response \<Rightarrow>
                     (if resp_status response = 429 then
                        (let retryAfter = resp_headers_get response ''Retry-After''
                         in Inl (RateLimitError ''Rate limit exceeded''
                                   (case retryAfter of
                                      None \<Rightarrow> Num 60
                                    | Some h \<Rightarrow> if h \<noteq> [] then parseInt h else Num 60)))
                      else if resp_status response = 401 \<or> resp_status response = 403 then
                        Inl (AuthenticationError ''Authentication failed. Check your Loom access token.'')
                      else if resp_status response = 404 then
                        Inl (LoomApiError (JStr ''Resource not found'') 404 (Some ''NOT_FOUND''))
                      else if \<not> resp_ok response then
                        Inl (LoomApiError (api_error_message response) (resp_status response) None)
                      else if resp_status response = 204 then
                        Inr None
                      else (case resp_body response of
                              Unparseable m \<Rightarrow> Inl (SyntaxError m)
                            | Parsed v d \<Rightarrow> Inr (Some d)),
                      [req])))"

text \<open>
  \<open>const data = await this.request(...)\<close> followed by code that sends nothing more:
  a failure of the request is the failure of the operation.
\<close>

definition await_then :: "'a outcome \<Rightarrow> ('a \<Rightarrow> error + 'b) \<Rightarrow> 'b outcome" where
  "await_then r k = (case fst r of Inl e \<Rightarrow> (Inl e, snd r) | Inr data \<Rightarrow> (k data, snd r))"

text \<open>The first property read on the awaited value, which is \<open>undefined\<close> after a 204.\<close>

definition reading :: "string \<Rightarrow> 'a option \<Rightarrow> ('a \<Rightarrow> 'b) \<Rightarrow> error + 'b" where
  "reading key data k = (case data of None \<Rightarrow> Inl (cannot_read key) | Some d \<Rightarrow> Inr (k d))"

definition no_options :: RequestInit where
  "no_options = \<lparr>init_method = None, init_headers = None, init_body = None\<rparr>"

text \<open>\<open>a || b\<close> for an optional string or number \<open>a\<close> and a default \<open>b\<close>.\<close>

fun or_str :: "string option \<Rightarrow> string \<Rightarrow> string" where
  "or_str None b = b"
| "or_str (Some a) b = (if a \<noteq> [] then a else b)"

fun or_num :: "number option \<Rightarrow> number \<Rightarrow> number" where
  "or_num None b = b"
| "or_num (Some a) b = (if truthy_number a then a else b)"

text \<open>An optional argument as a property value of an object literal.\<close>

fun js_str :: "string option \<Rightarrow> jsval" where
  "js_str None = JUndefined"
| "js_str (Some s) = JStr s"

fun js_num :: "number option \<Rightarrow> jsval" where
  "js_num None = JUndefined"
| "js_num (Some n) = JNum n"

subsection \<open>Internal types\<close>

record LoomUser =
  user_id :: string
  user_email :: string
  user_name :: string
  user_avatarUrl :: "string option"

record VideoOwner =
  owner_id :: string
  owner_name :: string
  owner_email :: string

record VideoWorkspace =
  vws_id :: string
  vws_name :: string

text \<open>\<open>status\<close> and \<open>privacy\<close> are strings: the wire value is cast, not checked.\<close>

record LoomVideo =
  video_id :: string
  video_title :: string
  video_description :: "string option"
  video_status :: string
  video_duration :: "number option"
  video_thumbnailUrl :: "string option"
  video_embedUrl :: "string option"
  video_shareUrl :: "string option"
  video_downloadUrl :: "string option"
  video_viewCount :: "number option"
  video_privacy :: "string option"
  video_createdAt :: string
  video_updatedAt :: "string option"
  video_owner :: "VideoOwner option"
  video_workspace :: "VideoWorkspace option"
  video_folderId :: "string option"

record LoomTranscriptSegment =
  seg_startTime :: number
  seg_endTime :: number
  seg_text :: string

record LoomTranscript =
  transcript :: "LoomTranscriptSegment list"
  fullText :: string

record LoomFolder =
  folder_id :: string
  folder_name :: string
  folder_videoCount :: "number option"
  folder_createdAt :: string
  folder_updatedAt :: "string option"
  folder_parentId :: "string option"

record LoomWorkspace =
  workspace_id :: string
  workspace_name :: string
  workspace_memberCount :: "number option"
  workspace_createdAt :: "string option"

record LoomAnalytics =
  totalViews :: number
  uniqueViewers :: number
  averagePercentWatched :: number
  totalWatchTime :: number

record CommentAuthor =
  author_id :: string
  author_name :: string

record LoomComment =
  comment_id :: string
  comment_text :: string
  comment_timestamp :: "number option"
  comment_author :: CommentAuthor
  comment_createdAt :: string

record LoomSpace =
  space_id :: string
  space_name :: string
  space_description :: "string option"
  space_memberCount :: "number option"
  space_videoCount :: "number option"
  space_createdAt :: "string option"

record LoomOEmbed =
  oembed_version :: string
  oembed_type :: string
  oembed_html :: string
  oembed_width :: number
  oembed_height :: number
  oembed_title :: string
  oembed_thumbnailUrl :: "string option"
  oembed_thumbnailWidth :: "number option"
  oembed_thumbnailHeight :: "number option"
  oembed_providerName :: string
  oembed_providerUrl :: string
  oembed_duration :: "number option"

record LoomRecordLink =
  link_id :: string
  link_url :: string
  link_title :: "string option"
  link_expiresAt :: "string option"

record 'a PaginatedResponse =
  items :: "'a list"
  nextCursor :: "string option"
  hasMore :: bool

record connection_result =
  connected :: bool
  message :: string

record embed_result =
  html :: string

subsection \<open>Wire types (the type arguments of \<open>this.request<...>\<close>)\<close>

record wire_user =
  wu_id :: string
  wu_email :: string
  wu_name :: string
  wu_avatar_url :: "string option"

text \<open>
  One record for a video on the wire. \<open>listSpaceVideos\<close>, \<open>searchVideos\<close> and
  \<open>duplicateVideo\<close> declare fewer of its fields and copy only those.
\<close>

record wire_video =
  wv_id :: string
  wv_title :: string
  wv_description :: "string option"
  wv_status :: string
  wv_duration :: "number option"
  wv_thumbnail_url :: "string option"
  wv_embed_url :: "string option"
  wv_share_url :: "string option"
  wv_download_url :: "string option"
  wv_view_count :: "number option"
  wv_privacy :: "string option"
  wv_created_at :: string
  wv_updated_at :: "string option"
  wv_owner :: "VideoOwner option"
  wv_workspace :: "VideoWorkspace option"
  wv_folder_id :: "string option"

record wire_videos =
  videos :: "wire_video list"
  videos_next_cursor :: "string option"

record wire_id =
  updated_id :: string

record wire_segment =
  start_time :: number
  end_time :: number
  segment_text :: string

record wire_transcript =
  wire_segments :: "wire_segment list"

record wire_analytics =
  total_views :: number
  unique_viewers :: number
  average_percent_watched :: number
  total_watch_time :: number

record wire_comment =
  wc_id :: string
  wc_text :: string
  wc_timestamp :: "number option"
  wc_author :: CommentAuthor
  wc_created_at :: string

record wire_comments =
  comments :: "wire_comment list"

record wire_folder =
  wf_id :: string
  wf_name :: string
  wf_video_count :: "number option"
  wf_created_at :: string
  wf_updated_at :: "string option"
  wf_parent_id :: "string option"

record wire_folders =
  folders :: "wire_folder list"
  folders_next_cursor :: "string option"

record wire_workspace =
  ww_id :: string
  ww_name :: string
  ww_member_count :: "number option"
  ww_created_at :: "string option"

record wire_workspaces =
  workspaces :: "wire_workspace list"

record wire_space =
  wsp_id :: string
  wsp_name :: string
  wsp_description :: "string option"
  wsp_member_count :: "number option"
  wsp_video_count :: "number option"
  wsp_created_at :: "string option"

record wire_spaces =
  spaces :: "wire_space list"
  spaces_next_cursor :: "string option"

record wire_oembed =
  wo_version :: string
  wo_type :: string
  wo_html :: string
  wo_width :: number
  wo_height :: number
  wo_title :: string
  wo_thumbnail_url :: "string option"
  wo_thumbnail_width :: "number option"
  wo_thumbnail_height :: "number option"
  wo_provider_name :: string
  wo_provider_url :: string
  wo_duration :: "number option"

record wire_record_link =
  wl_id :: string
  wl_url :: string
  wl_title :: "string option"
  wl_expires_at :: "string option"

subsection \<open>Parameter objects\<close>

record list_params =
  perPage :: "number option"
  cursor :: "string option"

record update_video_params =
  upd_title :: "string option"
  upd_description :: "string option"
  upd_privacy :: "string option"

record create_comment_params =
  new_text :: string
  new_timestamp :: "number option"

record update_folder_params =
  upd_name :: "string option"

record oembed_params =
  maxWidth :: "number option"
  maxHeight :: "number option"

record record_link_params =
  rl_title :: "string option"
  rl_folderId :: "string option"
  rl_expiresInMinutes :: "number option"

record embed_params =
  emb_width :: "number option"
  emb_height :: "number option"
  emb_autoplay :: "bool option"

text \<open>\<open>params?.field\<close> for an optional parameter object.\<close>

definition opt :: "'p option \<Rightarrow> ('p \<Rightarrow> 'v option) \<Rightarrow> 'v option" where
  "opt params field = (case params of None \<Rightarrow> None | Some p \<Rightarrow> field p)"

subsection \<open>Building queries and bodies\<close>

text \<open>\<open>if (v) queryParams.set(name, String(v))\<close> and \<open>if (v) queryParams.set(name, v)\<close>.\<close>

definition set_if_num :: "(string \<times> string) list \<Rightarrow> string \<Rightarrow> number option \<Rightarrow> (string \<times> string) list" where
  "set_if_num queryParams name v =
     (case v of
        None \<Rightarrow> queryParams
      | Some n \<Rightarrow> if truthy_number n then URLSearchParams_set queryParams name (String_number n)
                  else queryParams)"

definition set_if_str :: "(string \<times> string) list \<Rightarrow> string \<Rightarrow> string option \<Rightarrow> (string \<times> string) list" where
  "set_if_str queryParams name v =
     (case v of
        None \<Rightarrow> queryParams
      | Some s \<Rightarrow> if s \<noteq> [] then URLSearchParams_set queryParams name s else queryParams)"

text \<open>The two lines every listing operation runs on its \<open>queryParams\<close>.\<close>

definition pagination_query :: "(string \<times> string) list \<Rightarrow> list_params option \<Rightarrow> (string \<times> string) list" where
  "pagination_query queryParams params =
     set_if_str (set_if_num queryParams ''per_page'' (opt params perPage))
       ''next_cursor'' (opt params cursor)"

text \<open>\<open>if (v) body.key = v\<close> on a body object under construction.\<close>

definition assign_if_str :: "(string \<times> jsval) list \<Rightarrow> string \<Rightarrow> string option \<Rightarrow> (string \<times> jsval) list" where
  "assign_if_str obj key v =
     (case v of
        None \<Rightarrow> obj
      | Some s \<Rightarrow> if s \<noteq> [] then AList.update key (JStr s) obj else obj)"

definition assign_if_num :: "(string \<times> jsval) list \<Rightarrow> string \<Rightarrow> number option \<Rightarrow> (string \<times> jsval) list" where
  "assign_if_num obj key v =
     (case v of
        None \<Rightarrow> obj
      | Some n \<Rightarrow> if truthy_number n then AList.update key (JNum n) obj else obj)"

definition with_method :: "string \<Rightarrow> RequestInit" where
  "with_method m = \<lparr>init_method = Some m, init_headers = None, init_body = None\<rparr>"

definition with_body :: "string \<Rightarrow> jsval \<Rightarrow> RequestInit" where
  "with_body m v = \<lparr>init_method = Some m, init_headers = None, init_body = Some (JSON_stringify v)\<rparr>"

subsection \<open>Field translation (the object literals of the operations)\<close>

definition to_LoomUser :: "wire_user \<Rightarrow> LoomUser" where
  "to_LoomUser data =
     \<lparr>user_id = wu_id data, user_email = wu_email data, user_name = wu_name data,
      user_avatarUrl = wu_avatar_url data\<rparr>"

text \<open>The literal of \<open>listVideos\<close> and \<open>getVideo\<close>.\<close>

definition to_LoomVideo :: "wire_video \<Rightarrow> LoomVideo" where
  "to_LoomVideo v =
     \<lparr>video_id = wv_id v, video_title = wv_title v, video_description = wv_description v,
      video_status = wv_status v, video_duration = wv_duration v,
      video_thumbnailUrl = wv_thumbnail_url v, video_embedUrl = wv_embed_url v,
      video_shareUrl = wv_share_url v, video_downloadUrl = wv_download_url v,
      video_viewCount = wv_view_count v, video_privacy = wv_privacy v,
      video_createdAt = wv_created_at v, video_updatedAt = wv_updated_at v,
      video_owner = wv_owner v, video_workspace = wv_workspace v,
      video_folderId = wv_folder_id v\<rparr>"

text \<open>The literal of \<open>listSpaceVideos\<close>: ten fields.\<close>

definition to_space_LoomVideo :: "wire_video \<Rightarrow> LoomVideo" where
  "to_space_LoomVideo v =
     \<lparr>video_id = wv_id v, video_title = wv_title v, video_description = wv_description v,
      video_status = wv_status v, video_duration = wv_duration v,
      video_thumbnailUrl = wv_thumbnail_url v, video_embedUrl = None,
      video_shareUrl = wv_share_url v, video_downloadUrl = None,
      video_viewCount = wv_view_count v, video_privacy = wv_privacy v,
      video_createdAt = wv_created_at v, video_updatedAt = None,
      video_owner = None, video_workspace = None, video_folderId = None\<rparr>"

text \<open>The literal of \<open>searchVideos\<close>: nine fields.\<close>

definition to_search_LoomVideo :: "wire_video \<Rightarrow> LoomVideo" where
  "to_search_LoomVideo v =
     \<lparr>video_id = wv_id v, video_title = wv_title v, video_description = wv_description v,
      video_status = wv_status v, video_duration = wv_duration v,
      video_thumbnailUrl = wv_thumbnail_url v, video_embedUrl = None,
      video_shareUrl = wv_share_url v, video_downloadUrl = None,
      video_viewCount = wv_view_count v, video_privacy = None,
      video_createdAt = wv_created_at v, video_updatedAt = None,
      video_owner = None, video_workspace = None, video_folderId = None\<rparr>"

text \<open>The literal of \<open>duplicateVideo\<close>: five fields.\<close>

definition to_duplicate_LoomVideo :: "wire_video \<Rightarrow> LoomVideo" where
  "to_duplicate_LoomVideo v =
     \<lparr>video_id = wv_id v, video_title = wv_title v, video_description = wv_description v,
      video_status = wv_status v, video_duration = None,
      video_thumbnailUrl = None, video_embedUrl = None,
      video_shareUrl = None, video_downloadUrl = None,
      video_viewCount = None, video_privacy = None,
      video_createdAt = wv_created_at v, video_updatedAt = None,
      video_owner = None, video_workspace = None, video_folderId = None\<rparr>"

definition to_LoomTranscriptSegment :: "wire_segment \<Rightarrow> LoomTranscriptSegment" where
  "to_LoomTranscriptSegment t =
     \<lparr>seg_startTime = start_time t, seg_endTime = end_time t, seg_text = segment_text t\<rparr>"

definition to_LoomAnalytics :: "wire_analytics \<Rightarrow> LoomAnalytics" where
  "to_LoomAnalytics data =
     \<lparr>totalViews = total_views data, uniqueViewers = unique_viewers data,
      averagePercentWatched = average_percent_watched data,
      totalWatchTime = total_watch_time data\<rparr>"

definition to_LoomComment :: "wire_comment \<Rightarrow> LoomComment" where
  "to_LoomComment c =
     \<lparr>comment_id = wc_id c, comment_text = wc_text c, comment_timestamp = wc_timestamp c,
      comment_author = wc_author c, comment_createdAt = wc_created_at c\<rparr>"

definition to_LoomFolder :: "wire_folder \<Rightarrow> LoomFolder" where
  "to_LoomFolder f =
     \<lparr>folder_id = wf_id f, folder_name = wf_name f, folder_videoCount = wf_video_count f,
      folder_createdAt = wf_created_at f, folder_updatedAt = wf_updated_at f,
      folder_parentId = wf_parent_id f\<rparr>"

definition to_LoomWorkspace :: "wire_workspace \<Rightarrow> LoomWorkspace" where
  "to_LoomWorkspace w =
     \<lparr>workspace_id = ww_id w, workspace_name = ww_name w,
      workspace_memberCount = ww_member_count w, workspace_createdAt = ww_created_at w\<rparr>"

definition to_LoomSpace :: "wire_space \<Rightarrow> LoomSpace" where
  "to_LoomSpace s =
     \<lparr>space_id = wsp_id s, space_name = wsp_name s, space_description = wsp_description s,
      space_memberCount = wsp_member_count s, space_videoCount = wsp_video_count s,
      space_createdAt = wsp_created_at s\<rparr>"

definition to_LoomOEmbed :: "wire_oembed \<Rightarrow> LoomOEmbed" where
  "to_LoomOEmbed data =
     \<lparr>oembed_version = wo_version data, oembed_type = wo_type data, oembed_html = wo_html data,
      oembed_width = wo_width data, oembed_height = wo_height data, oembed_title = wo_title data,
      oembed_thumbnailUrl = wo_thumbnail_url data,
      oembed_thumbnailWidth = wo_thumbnail_width data,
      oembed_thumbnailHeight = wo_thumbnail_height data,
      oembed_providerName = wo_provider_name data, oembed_providerUrl = wo_provider_url data,
      oembed_duration = wo_duration data\<rparr>"

definition to_LoomRecordLink :: "wire_record_link \<Rightarrow> LoomRecordLink" where
  "to_LoomRecordLink data =
     \<lparr>link_id = wl_id data, link_url = wl_url data, link_title = wl_title data,
      link_expiresAt = wl_expires_at data\<rparr>"

subsection \<open>Operations\<close>

definition getCurrentUser :: "LoomClientImpl \<Rightarrow> wire_user fetch \<Rightarrow> LoomUser outcome" where
  "getCurrentUser this fetch =
     await_then (request this fetch ''/me'' no_options)
       (\<lambda>data. reading ''id'' data to_LoomUser)"

definition testConnection :: "LoomClientImpl \<Rightarrow> wire_user fetch \<Rightarrow> connection_result outcome" where
  "testConnection this fetch =
     (case getCurrentUser this fetch of
        (Inr user, log) \<Rightarrow>
          (Inr \<lparr>connected = True, message = ''Connected as '' @ user_name user\<rparr>, log)
      | (Inl error, log) \<Rightarrow>
          (Inr \<lparr>connected = False,
                message = (if instanceof_Error error then error_message error
                           else ''Connection failed'')\<rparr>, log))"

definition listVideos :: "LoomClientImpl \<Rightarrow> wire_videos fetch \<Rightarrow> list_params option \<Rightarrow> LoomVideo PaginatedResponse outcome" where
  "listVideos this fetch params =
     (let queryParams = pagination_query [] params;
          queryString = URLSearchParams_toString queryParams;
          endpoint = (if queryString \<noteq> [] then ''/videos?'' @ queryString else ''/videos'')
      in await_then (request this fetch endpoint no_options)
           (\<lambda>data. reading ''videos'' data
              (\<lambda>d. \<lparr>items = map to_LoomVideo (videos d),
                     nextCursor = videos_next_cursor d,
                     hasMore = truthy_str (videos_next_cursor d)\<rparr>)))"

definition getVideo :: "LoomClientImpl \<Rightarrow> wire_video fetch \<Rightarrow> string \<Rightarrow> LoomVideo outcome" where
  "getVideo this fetch videoId =
     await_then (request this fetch (''/videos/'' @ videoId) no_options)
       (\<lambda>data. reading ''id'' data to_LoomVideo)"

text \<open>\<open>updateVideo\<close> returns what \<open>request\<close> resolves to, \<open>undefined\<close> after a 204.\<close>

definition updateVideo :: "LoomClientImpl \<Rightarrow> wire_id fetch \<Rightarrow> string \<Rightarrow> update_video_params \<Rightarrow> wire_id option outcome" where
  "updateVideo this fetch videoId params =
     request this fetch (''/videos/'' @ videoId)
       (with_body ''PATCH''
          (JObj [(''title'', js_str (upd_title params)),
                 (''description'', js_str (upd_description params)),
                 (''privacy'', js_str (upd_privacy params))]))"

definition deleteVideo :: "LoomClientImpl \<Rightarrow> 'a fetch \<Rightarrow> string \<Rightarrow> unit outcome" where
  "deleteVideo this fetch videoId =
     await_then (request this fetch (''/videos/'' @ videoId) (with_method ''DELETE''))
       (\<lambda>data. Inr ())"

definition getTranscript :: "LoomClientImpl \<Rightarrow> wire_transcript fetch \<Rightarrow> string \<Rightarrow> LoomTranscript outcome" where
  "getTranscript this fetch videoId =
     await_then (request this fetch (''/videos/'' @ videoId @ ''/transcript'') no_options)
       (\<lambda>data. reading ''transcript'' data
          (\<lambda>d. let transcript = map to_LoomTranscriptSegment (wire_segments d)
                in \<lparr>transcript = transcript,
                    fullText = Array_join '' '' (map seg_text transcript)\<rparr>))"

definition getVideoAnalytics :: "LoomClientImpl \<Rightarrow> wire_analytics fetch \<Rightarrow> string \<Rightarrow> LoomAnalytics outcome" where
  "getVideoAnalytics this fetch videoId =
     await_then (request this fetch (''/videos/'' @ videoId @ ''/analytics'') no_options)
       (\<lambda>data. reading ''total_views'' data to_LoomAnalytics)"

definition listComments :: "LoomClientImpl \<Rightarrow> wire_comments fetch \<Rightarrow> string \<Rightarrow> LoomComment list outcome" where
  "listComments this fetch videoId =
     await_then (request this fetch (''/videos/'' @ videoId @ ''/comments'') no_options)
       (\<lambda>data. reading ''comments'' data (\<lambda>d. map to_LoomComment (comments d)))"

definition createComment :: "LoomClientImpl \<Rightarrow> wire_comment fetch \<Rightarrow> string \<Rightarrow> create_comment_params \<Rightarrow> LoomComment outcome" where
  "createComment this fetch videoId params =
     await_then
       (request this fetch (''/videos/'' @ videoId @ ''/comments'')
          (with_body ''POST''
             (JObj [(''text'', JStr (new_text params)),
                    (''timestamp'', js_num (new_timestamp params))])))
       (\<lambda>data. reading ''id'' data to_LoomComment)"

definition listFolders :: "LoomClientImpl \<Rightarrow> wire_folders fetch \<Rightarrow> list_params option \<Rightarrow> LoomFolder PaginatedResponse outcome" where
  "listFolders this fetch params =
     (let queryParams = pagination_query [] params;
          queryString = URLSearchParams_toString queryParams;
          endpoint = (if queryString \<noteq> [] then ''/folders?'' @ queryString else ''/folders'')
      in await_then (request this fetch endpoint no_options)
           (\<lambda>data. reading ''folders'' data
              (\<lambda>d. \<lparr>items = map to_LoomFolder (folders d),
                     nextCursor = folders_next_cursor d,
                     hasMore = truthy_str (folders_next_cursor d)\<rparr>)))"

definition createFolder :: "LoomClientImpl \<Rightarrow> wire_folder fetch \<Rightarrow> string \<Rightarrow> string option \<Rightarrow> LoomFolder outcome" where
  "createFolder this fetch name parentId =
     (let body = assign_if_str [(''name'', JStr name)] ''parent_id'' parentId
      in await_then (request this fetch ''/folders'' (with_body ''POST'' (JObj body)))
           (\<lambda>data. reading ''id'' data to_LoomFolder))"

definition getFolder :: "LoomClientImpl \<Rightarrow> wire_folder fetch \<Rightarrow> string \<Rightarrow> LoomFolder outcome" where
  "getFolder this fetch folderId =
     await_then (request this fetch (''/folders/'' @ folderId) no_options)
       (\<lambda>data. reading ''id'' data to_LoomFolder)"

definition updateFolder :: "LoomClientImpl \<Rightarrow> wire_folder fetch \<Rightarrow> string \<Rightarrow> update_folder_params \<Rightarrow> LoomFolder outcome" where
  "updateFolder this fetch folderId params =
     await_then
       (request this fetch (''/folders/'' @ folderId)
          (with_body ''PATCH'' (JObj [(''name'', js_str (upd_name params))])))
       (\<lambda>data. reading ''id'' data to_LoomFolder)"

definition deleteFolder :: "LoomClientImpl \<Rightarrow> 'a fetch \<Rightarrow> string \<Rightarrow> unit outcome" where
  "deleteFolder this fetch folderId =
     await_then (request this fetch (''/folders/'' @ folderId) (with_method ''DELETE''))
       (\<lambda>data. Inr ())"

definition listWorkspaces :: "LoomClientImpl \<Rightarrow> wire_workspaces fetch \<Rightarrow> LoomWorkspace list outcome" where
  "listWorkspaces this fetch =
     await_then (request this fetch ''/workspaces'' no_options)
       (\<lambda>data. reading ''workspaces'' data (\<lambda>d. map to_LoomWorkspace (workspaces d)))"

definition getWorkspace :: "LoomClientImpl \<Rightarrow> wire_workspace fetch \<Rightarrow> string \<Rightarrow> LoomWorkspace outcome" where
  "getWorkspace this fetch workspaceId =
     await_then (request this fetch (''/workspaces/'' @ workspaceId) no_options)
       (\<lambda>data. reading ''id'' data to_LoomWorkspace)"

definition listSpaces :: "LoomClientImpl \<Rightarrow> wire_spaces fetch \<Rightarrow> list_params option \<Rightarrow> LoomSpace PaginatedResponse outcome" where
  "listSpaces this fetch params =
     (let queryParams = pagination_query [] params;
          queryString = URLSearchParams_toString queryParams;
          endpoint = (if queryString \<noteq> [] then ''/spaces?'' @ queryString else ''/spaces'')
      in await_then (request this fetch endpoint no_options)
           (\<lambda>data. reading ''spaces'' data
              (\<lambda>d. \<lparr>items = map to_LoomSpace (spaces d),
                     nextCursor = spaces_next_cursor d,
                     hasMore = truthy_str (spaces_next_cursor d)\<rparr>)))"

definition getSpace :: "LoomClientImpl \<Rightarrow> wire_space fetch \<Rightarrow> string \<Rightarrow> LoomSpace outcome" where
  "getSpace this fetch spaceId =
     await_then (request this fetch (''/spaces/'' @ spaceId) no_options)
       (\<lambda>data. reading ''id'' data to_LoomSpace)"

definition listSpaceVideos :: "LoomClientImpl \<Rightarrow> wire_videos fetch \<Rightarrow> string \<Rightarrow> list_params option \<Rightarrow> LoomVideo PaginatedResponse outcome" where
  "listSpaceVideos this fetch spaceId params =
     (let queryParams = pagination_query [] params;
          queryString = URLSearchParams_toString queryParams;
          endpoint = (if queryString \<noteq> [] then ''/spaces/'' @ spaceId @ ''/videos?'' @ queryString
                      else ''/spaces/'' @ spaceId @ ''/videos'')
      in await_then (request this fetch endpoint no_options)
           (\<lambda>data. reading ''videos'' data
              (\<lambda>d. \<lparr>items = map to_space_LoomVideo (videos d),
                     nextCursor = videos_next_cursor d,
                     hasMore = truthy_str (videos_next_cursor d)\<rparr>)))"

definition addVideoToSpace :: "LoomClientImpl \<Rightarrow> 'a fetch \<Rightarrow> string \<Rightarrow> string \<Rightarrow> unit outcome" where
  "addVideoToSpace this fetch spaceId videoId =
     await_then
       (request this fetch (''/spaces/'' @ spaceId @ ''/videos'')
          (with_body ''POST'' (JObj [(''video_id'', JStr videoId)])))
       (\<lambda>data. Inr ())"

definition removeVideoFromSpace :: "LoomClientImpl \<Rightarrow> 'a fetch \<Rightarrow> string \<Rightarrow> string \<Rightarrow> unit outcome" where
  "removeVideoFromSpace this fetch spaceId videoId =
     await_then
       (request this fetch (''/spaces/'' @ spaceId @ ''/videos/'' @ videoId) (with_method ''DELETE''))
       (\<lambda>data. Inr ())"

definition getOEmbed :: "LoomClientImpl \<Rightarrow> wire_oembed fetch \<Rightarrow> string \<Rightarrow> oembed_params option \<Rightarrow> LoomOEmbed outcome" where
  "getOEmbed this fetch url params =
     (let queryParams = URLSearchParams_set [] ''url'' url;
          queryParams = set_if_num queryParams ''maxwidth'' (opt params maxWidth);
          queryParams = set_if_num queryParams ''maxheight'' (opt params maxHeight)
      in await_then
           (request this fetch (''/oembed?'' @ URLSearchParams_toString queryParams) no_options)
           (\<lambda>data. reading ''version'' data to_LoomOEmbed))"

definition createRecordLink :: "LoomClientImpl \<Rightarrow> wire_record_link fetch \<Rightarrow> record_link_params option \<Rightarrow> LoomRecordLink outcome" where
  "createRecordLink this fetch params =
     (let body = [];
          body = assign_if_str body ''title'' (opt params rl_title);
          body = assign_if_str body ''folder_id'' (opt params rl_folderId);
          body = assign_if_num body ''expires_in_minutes'' (opt params rl_expiresInMinutes)
      in await_then (request this fetch ''/record-links'' (with_body ''POST'' (JObj body)))
           (\<lambda>data. reading ''id'' data to_LoomRecordLink))"

definition getEmbedHtml :: "LoomClientImpl \<Rightarrow> wire_video fetch \<Rightarrow> string \<Rightarrow> embed_params option \<Rightarrow> embed_result outcome" where
  "getEmbedHtml this fetch videoId params =
     await_then (getVideo this fetch videoId)
       (\<lambda>video.
          let width = or_num (opt params emb_width) (Num 640);
              height = or_num (opt params emb_height) (Num 360);
              autoplay = (if truthy_bool (opt params emb_autoplay) then ''?autoplay=1'' else []);
              embedUrl = or_str (video_embedUrl video) (''https://www.loom.com/embed/'' @ videoId)
          in Inr \<lparr>html = ''<iframe src=\"'' @ embedUrl @ autoplay
                     @ ''\" width=\"'' @ String_number width
                     @ ''\" height=\"'' @ String_number height
                     @ ''\" frameborder=\"0\" webkitallowfullscreen mozallowfullscreen allowfullscreen></iframe>''\<rparr>)"

definition moveVideoToFolder :: "LoomClientImpl \<Rightarrow> 'a fetch \<Rightarrow> string \<Rightarrow> string \<Rightarrow> unit outcome" where
  "moveVideoToFolder this fetch videoId folderId =
     await_then
       (request this fetch (''/videos/'' @ videoId)
          (with_body ''PATCH'' (JObj [(''folder_id'', JStr folderId)])))
       (\<lambda>data. Inr ())"

definition duplicateVideo :: "LoomClientImpl \<Rightarrow> wire_video fetch \<Rightarrow> string \<Rightarrow> LoomVideo outcome" where
  "duplicateVideo this fetch videoId =
     await_then
       (request this fetch (''/videos/'' @ videoId @ ''/duplicate'') (with_method ''POST''))
       (\<lambda>data. reading ''id'' data to_duplicate_LoomVideo)"

definition searchVideos :: "LoomClientImpl \<Rightarrow> wire_videos fetch \<Rightarrow> string \<Rightarrow> list_params option \<Rightarrow> LoomVideo PaginatedResponse outcome" where
  "searchVideos this fetch query params =
     (let queryParams = URLSearchParams_set [] ''q'' query;
          queryParams = pagination_query queryParams params
      in await_then
           (request this fetch (''/videos/search?'' @ URLSearchParams_toString queryParams) no_options)
           (\<lambda>data. reading ''videos'' data
              (\<lambda>d. \<lparr>items = map to_search_LoomVideo (videos d),
                     nextCursor = videos_next_cursor d,
                     hasMore = truthy_str (videos_next_cursor d)\<rparr>)))"

section \<open>Names used in the statements\<close>

text \<open>The error of \<open>getAuthHeaders\<close> and the two headers it returns.\<close>

definition no_credentials :: error where
  "no_credentials = AuthenticationError ''No credentials provided. Include X-Loom-Access-Token header.''"

definition bearer_headers :: "string \<Rightarrow> (string \<times> string) list" where
  "bearer_headers token =
     [(''Authorization'', ''Bearer '' @ token), (''Content-Type'', ''application/json'')]"


text \<open>
  The retry-after seconds of a rate limit, as the amended claim C3 words it: parsed from
  the header when it is present and not empty, 60 otherwise.
\<close>

definition retry_after_seconds :: "string option \<Rightarrow> number" where
  "retry_after_seconds header =
     (case header of None \<Rightarrow> Num 60 | Some v \<Rightarrow> if v = [] then Num 60 else parseInt v)"

text \<open>
  The text of a generic API failure, as the amended claim C4 words it: the \<open>message\<close>
  field of the JSON body when the body is an object holding a truthy value there, else
  its \<open>error\<close> field on the same condition, else \<open>API error: <status>\<close>.
\<close>

definition truthy_field :: "jsval \<Rightarrow> string \<Rightarrow> jsval option" where
  "truthy_field j key =
     (case j of
        JObj kvs \<Rightarrow> (case map_of kvs key of
                       None \<Rightarrow> None
                     | Some v \<Rightarrow> if truthy v then Some v else None)
      | _ \<Rightarrow> None)"

definition failure_text :: "nat \<Rightarrow> 'a body \<Rightarrow> jsval" where
  "failure_text st b =
     (case b of
        Unparseable m \<Rightarrow> JStr (''API error: '' @ String_number (Num (int st)))
      | Parsed j d \<Rightarrow>
          (case truthy_field j ''message'' of
             Some m \<Rightarrow> m
           | None \<Rightarrow> (case truthy_field j ''error'' of
                        Some e \<Rightarrow> e
                      | None \<Rightarrow> JStr (''API error: '' @ String_number (Num (int st))))))"

subsection \<open>Sample inputs\<close>

definition sample_client :: LoomClientImpl where
  "sample_client = createLoomClient \<lparr>accessToken = Some ''token-1'', baseUrl = None\<rparr>"

definition no_headers :: "string \<Rightarrow> string option" where
  "no_headers name = None"

text \<open>
  A server that answers every request with status 200 and the JSON body \<open>v\<close>, which is
  \<open>d\<close> at the declared type.
\<close>

definition ok_fetch :: "jsval \<Rightarrow> 'a \<Rightarrow> 'a fetch" where
  "ok_fetch v d =
     (\<lambda>req. Inr \<lparr>resp_status = 200, resp_headers_get = no_headers, resp_body = Parsed v d\<rparr>)"



definition sample_user_json :: jsval where
  "sample_user_json =
     JObj [(''id'', JStr ''u1''), (''email'', JStr ''ada@example.com''), (''name'', JStr ''Ada'')]"

definition sample_user :: wire_user where
  "sample_user =
     \<lparr>wu_id = ''u1'', wu_email = ''ada@example.com'', wu_name = ''Ada'', wu_avatar_url = None\<rparr>"

definition sample_video_json :: jsval where
  "sample_video_json =
     JObj [(''id'', JStr ''abc123''), (''title'', JStr ''Demo''), (''status'', JStr ''ready''),
           (''created_at'', JStr ''2024-01-01T00:00:00Z'')]"

definition sample_video :: wire_video where
  "sample_video =
     \<lparr>wv_id = ''abc123'', wv_title = ''Demo'', wv_description = None, wv_status = ''ready'',
      wv_duration = None, wv_thumbnail_url = None, wv_embed_url = None, wv_share_url = None,
      wv_download_url = None, wv_view_count = None, wv_privacy = None,
      wv_created_at = ''2024-01-01T00:00:00Z'', wv_updated_at = None, wv_owner = None,
      wv_workspace = None, wv_folder_id = None\<rparr>"

text \<open>A page with no item and a cursor, and a page with two items and no cursor.\<close>

definition more_videos_json :: jsval where
  "more_videos_json = JObj [(''videos'', JArr []), (''next_cursor'', JStr ''cursor-2'')]"

definition more_videos :: wire_videos where
  "more_videos = \<lparr>videos = [], videos_next_cursor = Some ''cursor-2''\<rparr>"



definition more_folders_json :: jsval where
  "more_folders_json = JObj [(''folders'', JArr []), (''next_cursor'', JStr ''cursor-2'')]"

definition more_folders :: wire_folders where
  "more_folders = \<lparr>folders = [], folders_next_cursor = Some ''cursor-2''\<rparr>"

definition more_spaces_json :: jsval where
  "more_spaces_json = JObj [(''spaces'', JArr []), (''next_cursor'', JStr ''cursor-2'')]"

definition more_spaces :: wire_spaces where
  "more_spaces = \<lparr>spaces = [], spaces_next_cursor = Some ''cursor-2''\<rparr>"

definition falsy_params :: list_params where
  "falsy_params = \<lparr>perPage = Some (Num 0), cursor = Some []\<rparr>"

text \<open>A \<open>fetch\<close> that rejects, as on a network failure.\<close>

definition failing_fetch :: "'a fetch" where
  "failing_fetch = (\<lambda>req. Inl (TypeError ''fetch failed''))"

text \<open>A server that answers every request with the given status, headers and body.\<close>

definition answers :: "nat \<Rightarrow> (string \<Rightarrow> string option) \<Rightarrow> 'a body \<Rightarrow> 'a fetch" where
  "answers st h b = (\<lambda>req. Inr \<lparr>resp_status = st, resp_headers_get = h, resp_body = b\<rparr>)"

text \<open>Response headers holding at most a \<open>Retry-After\<close> header.\<close>

definition retry_after :: "string option \<Rightarrow> string \<Rightarrow> string option" where
  "retry_after v = (\<lambda>name. if name = ''Retry-After'' then v else None)"

definition anonymous_client :: LoomClientImpl where
  "anonymous_client = createLoomClient \<lparr>accessToken = None, baseUrl = None\<rparr>"

definition empty_token_client :: LoomClientImpl where
  "empty_token_client = createLoomClient \<lparr>accessToken = Some [], baseUrl = None\<rparr>"

text \<open>An inbound request whose two credential headers are present and empty.\<close>

definition empty_headers_request :: Request where
  "empty_headers_request =
     \<lparr>headers_get = (\<lambda>name. if name = ''X-Loom-Access-Token'' then Some []
                            else if name = ''X-Loom-Base-URL'' then Some [] else None)\<rparr>"

text \<open>The error body \<open>{"message": ""}\<close>.\<close>

definition empty_message :: jsval where
  "empty_message = JObj [(''message'', JStr [])]"

definition zero_width :: embed_params where
  "zero_width = \<lparr>emb_width = Some (Num 0), emb_height = Some (Num 450), emb_autoplay = Some True\<rparr>"

definition wide_autoplay :: embed_params where
  "wide_autoplay = \<lparr>emb_width = Some (Num 800), emb_height = Some (Num 450), emb_autoplay = Some True\<rparr>"

definition huge_frame :: embed_params where
  "huge_frame = \<lparr>emb_width = Some (Num 1000000000000000000000),
                  emb_height = Some (Num 9007199254740993), emb_autoplay = None\<rparr>"

section \<open>Properties of the shared request helper\<close>

lemma getAuthHeaders_falsy:
  "\<not> truthy_str (accessToken (credentials this)) \<Longrightarrow> getAuthHeaders this = Inl no_credentials"
  by (cases "accessToken (credentials this)") (simp_all add: getAuthHeaders_def no_credentials_def)

lemma getAuthHeaders_truthy:
  "accessToken (credentials this) = Some token \<Longrightarrow> token \<noteq> [] \<Longrightarrow>
   getAuthHeaders this = Inr (bearer_headers token)"
  by (simp add: getAuthHeaders_def bearer_headers_def)

lemma request_no_token:
  "\<not> truthy_str (accessToken (credentials this)) \<Longrightarrow>
   request this fetch endpoint options = (Inl no_credentials, [])"
  by (simp add: request_def getAuthHeaders_falsy)

lemma request_sends_one:
  "accessToken (credentials this) = Some token \<Longrightarrow> token \<noteq> [] \<Longrightarrow>
   snd (request this fetch endpoint options) =
     [\<lparr>req_url = this_baseUrl this @ endpoint, req_method = init_method options,
       req_headers = spread (bearer_headers token)
                       (case init_headers options of None \<Rightarrow> [] | Some h \<Rightarrow> h),
       req_body = init_body options\<rparr>]"
  by (simp add: request_def getAuthHeaders_truthy Let_def split: sum.splits)

lemma request_success:
  "request this fetch endpoint options = (Inr x, log) \<Longrightarrow>
   \<exists>req response. log = [req] \<and> fetch req = Inr response \<and>
      ((x = None \<and> resp_status response = 204) \<or>
       (\<exists>v d. x = Some d \<and> resp_body response = Parsed v d))"
  by (auto simp add: request_def Let_def split: sum.splits if_splits body.splits)

lemma await_then_fail [simp]: "await_then (Inl e, log) k = (Inl e, log)"
  by (simp add: await_then_def)

lemma snd_await_then [simp]: "snd (await_then r k) = snd r"
  by (simp add: await_then_def split: sum.splits)

lemma fst_await_then_fail: "fst r = Inl e \<Longrightarrow> fst (await_then r k) = Inl e"
  by (simp add: await_then_def)

lemma await_then_success:
  "await_then r k = (Inr y, log) \<Longrightarrow> \<exists>x. r = (Inr x, log) \<and> k x = Inr y"
  by (cases r) (auto simp add: await_then_def split: sum.splits)

lemma reading_success:
  "reading key data k = Inr y \<Longrightarrow> \<exists>d. data = Some d \<and> y = k d"
  by (auto simp add: reading_def split: option.splits)

lemma snd_testConnection [simp]:
  "snd (testConnection this fetch) = snd (getCurrentUser this fetch)"
  by (simp add: testConnection_def split: prod.splits sum.splits)

lemma sample_client_token:
  "accessToken (credentials sample_client) = Some ''token-1''"
  by (simp add: sample_client_def createLoomClient_def)

lemma request_ok_fetch:
  "request sample_client (ok_fetch v d) endpoint options =
     (Inr (Some d),
      [\<lparr>req_url = API_BASE_URL @ endpoint, req_method = init_method options,
        req_headers = spread (bearer_headers ''token-1'')
                        (case init_headers options of None \<Rightarrow> [] | Some h \<Rightarrow> h),
        req_body = init_body options\<rparr>])"
  by (simp add: request_def getAuthHeaders_def sample_client_def createLoomClient_def
      bearer_headers_def ok_fetch_def resp_ok_def Let_def)

lemma request_429:
  "accessToken (credentials this) = Some token \<Longrightarrow> token \<noteq> [] \<Longrightarrow>
   fst (request this (answers 429 h b) endpoint options) =
     Inl (RateLimitError ''Rate limit exceeded'' (retry_after_seconds (h ''Retry-After'')))"
  by (simp add: request_def getAuthHeaders_truthy Let_def answers_def retry_after_seconds_def
      split: option.splits)

lemma api_error_message_text:
  "api_error_message \<lparr>resp_status = st, resp_headers_get = h, resp_body = b\<rparr> = failure_text st b"
proof (cases b)
  case (Unparseable m)
  then show ?thesis by (simp add: api_error_message_def failure_text_def)
next
  case (Parsed j d)
  then show ?thesis
    by (cases j)
       (simp_all add: api_error_message_def failure_text_def truthy_field_def Let_def
          split: option.splits)
qed

lemma request_other_status:
  "accessToken (credentials this) = Some token \<Longrightarrow> token \<noteq> [] \<Longrightarrow>
   st \<noteq> 429 \<Longrightarrow> st \<noteq> 401 \<Longrightarrow> st \<noteq> 403 \<Longrightarrow> st \<noteq> 404 \<Longrightarrow> st < 200 \<or> 299 < st \<Longrightarrow>
   fst (request this (answers st h b) endpoint options) =
     Inl (LoomApiError (failure_text st b) st None)"
  by (auto simp add: request_def getAuthHeaders_truthy Let_def answers_def resp_ok_def
      api_error_message_text)

text \<open>Every operation but \<open>testConnection\<close> fails as its request fails.\<close>

lemma ops_no_token:
  assumes "\<not> truthy_str (accessToken (credentials this))"
  shows "getCurrentUser this fetch_user = (Inl no_credentials, [])"
    and "listVideos this fetch_videos params = (Inl no_credentials, [])"
    and "getVideo this fetch_video videoId = (Inl no_credentials, [])"
    and "updateVideo this fetch_id videoId update_params = (Inl no_credentials, [])"
    and "deleteVideo this fetch_any videoId = (Inl no_credentials, [])"
    and "getTranscript this fetch_transcript videoId = (Inl no_credentials, [])"
    and "getVideoAnalytics this fetch_analytics videoId = (Inl no_credentials, [])"
    and "listComments this fetch_comments videoId = (Inl no_credentials, [])"
    and "createComment this fetch_comment videoId comment_params = (Inl no_credentials, [])"
    and "listFolders this fetch_folders params = (Inl no_credentials, [])"
    and "createFolder this fetch_folder name parentId = (Inl no_credentials, [])"
    and "getFolder this fetch_folder folderId = (Inl no_credentials, [])"
    and "updateFolder this fetch_folder folderId folder_params = (Inl no_credentials, [])"
    and "deleteFolder this fetch_any folderId = (Inl no_credentials, [])"
    and "listWorkspaces this fetch_workspaces = (Inl no_credentials, [])"
    and "getWorkspace this fetch_workspace workspaceId = (Inl no_credentials, [])"
    and "listSpaces this fetch_spaces params = (Inl no_credentials, [])"
    and "getSpace this fetch_space spaceId = (Inl no_credentials, [])"
    and "listSpaceVideos this fetch_videos spaceId params = (Inl no_credentials, [])"
    and "addVideoToSpace this fetch_any spaceId videoId = (Inl no_credentials, [])"
    and "removeVideoFromSpace this fetch_any spaceId videoId = (Inl no_credentials, [])"
    and "getOEmbed this fetch_oembed url oembed_params = (Inl no_credentials, [])"
    and "createRecordLink this fetch_link link_params = (Inl no_credentials, [])"
    and "getEmbedHtml this fetch_video videoId embed_params = (Inl no_credentials, [])"
    and "moveVideoToFolder this fetch_any videoId folderId = (Inl no_credentials, [])"
    and "duplicateVideo this fetch_video videoId = (Inl no_credentials, [])"
    and "searchVideos this fetch_videos query params = (Inl no_credentials, [])"
  using assms by (simp_all add: getCurrentUser_def listVideos_def getVideo_def updateVideo_def deleteVideo_def getTranscript_def getVideoAnalytics_def listComments_def createComment_def listFolders_def createFolder_def getFolder_def updateFolder_def deleteFolder_def listWorkspaces_def getWorkspace_def listSpaces_def getSpace_def listSpaceVideos_def addVideoToSpace_def removeVideoFromSpace_def getOEmbed_def createRecordLink_def getEmbedHtml_def moveVideoToFolder_def duplicateVideo_def searchVideos_def Let_def request_no_token)

lemma ops_propagate:
  shows "(\<And>endpoint options. fst (request this fetch_user endpoint options) = Inl e) \<Longrightarrow>
         fst (getCurrentUser this fetch_user) = Inl e"
    and "(\<And>endpoint options. fst (request this fetch_videos endpoint options) = Inl e) \<Longrightarrow>
         fst (listVideos this fetch_videos params) = Inl e"
    and "(\<And>endpoint options. fst (request this fetch_video endpoint options) = Inl e) \<Longrightarrow>
         fst (getVideo this fetch_video videoId) = Inl e"
    and "(\<And>endpoint options. fst (request this fetch_id endpoint options) = Inl e) \<Longrightarrow>
         fst (updateVideo this fetch_id videoId update_params) = Inl e"
    and "(\<And>endpoint options. fst (request this fetch_any endpoint options) = Inl e) \<Longrightarrow>
         fst (deleteVideo this fetch_any videoId) = Inl e"
    and "(\<And>endpoint options. fst (request this fetch_transcript endpoint options) = Inl e) \<Longrightarrow>
         fst (getTranscript this fetch_transcript videoId) = Inl e"
    and "(\<And>endpoint options. fst (request this fetch_analytics endpoint options) = Inl e) \<Longrightarrow>
         fst (getVideoAnalytics this fetch_analytics videoId) = Inl e"
    and "(\<And>endpoint options. fst (request this fetch_comments endpoint options) = Inl e) \<Longrightarrow>
         fst (listComments this fetch_comments videoId) = Inl e"
    and "(\<And>endpoint options. fst (request this fetch_comment endpoint options) = Inl e) \<Longrightarrow>
         fst (createComment this fetch_comment videoId comment_params) = Inl e"
    and "(\<And>endpoint options. fst (request this fetch_folders endpoint options) = Inl e) \<Longrightarrow>
         fst (listFolders this fetch_folders params) = Inl e"
    and "(\<And>endpoint options. fst (request this fetch_folder endpoint options) = Inl e) \<Longrightarrow>
         fst (createFolder this fetch_folder name parentId) = Inl e"
    and "(\<And>endpoint options. fst (request this fetch_folder endpoint options) = Inl e) \<Longrightarrow>
         fst (getFolder this fetch_folder folderId) = Inl e"
    and "(\<And>endpoint options. fst (request this fetch_folder endpoint options) = Inl e) \<Longrightarrow>
         fst (updateFolder this fetch_folder folderId folder_params) = Inl e"
    and "(\<And>endpoint options. fst (request this fetch_any endpoint options) = Inl e) \<Longrightarrow>
         fst (deleteFolder this fetch_any folderId) = Inl e"
    and "(\<And>endpoint options. fst (request this fetch_workspaces endpoint options) = Inl e) \<Longrightarrow>
         fst (listWorkspaces this fetch_workspaces) = Inl e"
    and "(\<And>endpoint options. fst (request this fetch_workspace endpoint options) = Inl e) \<Longrightarrow>
         fst (getWorkspace this fetch_workspace workspaceId) = Inl e"
    and "(\<And>endpoint options. fst (request this fetch_spaces endpoint options) = Inl e) \<Longrightarrow>
         fst (listSpaces this fetch_spaces params) = Inl e"
    and "(\<And>endpoint options. fst (request this fetch_space endpoint options) = Inl e) \<Longrightarrow>
         fst (getSpace this fetch_space spaceId) = Inl e"
    and "(\<And>endpoint options. fst (request this fetch_videos endpoint options) = Inl e) \<Longrightarrow>
         fst (listSpaceVideos this fetch_videos spaceId params) = Inl e"
    and "(\<And>endpoint options. fst (request this fetch_any endpoint options) = Inl e) \<Longrightarrow>
         fst (addVideoToSpace this fetch_any spaceId videoId) = Inl e"
    and "(\<And>endpoint options. fst (request this fetch_any endpoint options) = Inl e) \<Longrightarrow>
         fst (removeVideoFromSpace this fetch_any spaceId videoId) = Inl e"
    and "(\<And>endpoint options. fst (request this fetch_oembed endpoint options) = Inl e) \<Longrightarrow>
         fst (getOEmbed this fetch_oembed url oembed_params) = Inl e"
    and "(\<And>endpoint options. fst (request this fetch_link endpoint options) = Inl e) \<Longrightarrow>
         fst (createRecordLink this fetch_link link_params) = Inl e"
    and "(\<And>endpoint options. fst (request this fetch_video endpoint options) = Inl e) \<Longrightarrow>
         fst (getEmbedHtml this fetch_video videoId embed_params) = Inl e"
    and "(\<And>endpoint options. fst (request this fetch_any endpoint options) = Inl e) \<Longrightarrow>
         fst (moveVideoToFolder this fetch_any videoId folderId) = Inl e"
    and "(\<And>endpoint options. fst (request this fetch_video endpoint options) = Inl e) \<Longrightarrow>
         fst (duplicateVideo this fetch_video videoId) = Inl e"
    and "(\<And>endpoint options. fst (request this fetch_videos endpoint options) = Inl e) \<Longrightarrow>
         fst (searchVideos this fetch_videos query params) = Inl e"
  by (simp_all add: getCurrentUser_def listVideos_def getVideo_def updateVideo_def deleteVideo_def getTranscript_def getVideoAnalytics_def listComments_def createComment_def listFolders_def createFolder_def getFolder_def updateFolder_def deleteFolder_def listWorkspaces_def getWorkspace_def listSpaces_def getSpace_def listSpaceVideos_def addVideoToSpace_def removeVideoFromSpace_def getOEmbed_def createRecordLink_def getEmbedHtml_def moveVideoToFolder_def duplicateVideo_def searchVideos_def Let_def fst_await_then_fail)

lemma ops_headers:
  assumes "accessToken (credentials this) = Some token" and "token \<noteq> []"
  shows "map req_headers (snd (getCurrentUser this fetch_user)) = [bearer_headers token]"
    and "map req_headers (snd (listVideos this fetch_videos params)) = [bearer_headers token]"
    and "map req_headers (snd (getVideo this fetch_video videoId)) = [bearer_headers token]"
    and "map req_headers (snd (updateVideo this fetch_id videoId update_params)) = [bearer_headers token]"
    and "map req_headers (snd (deleteVideo this fetch_any videoId)) = [bearer_headers token]"
    and "map req_headers (snd (getTranscript this fetch_transcript videoId)) = [bearer_headers token]"
    and "map req_headers (snd (getVideoAnalytics this fetch_analytics videoId)) = [bearer_headers token]"
    and "map req_headers (snd (listComments this fetch_comments videoId)) = [bearer_headers token]"
    and "map req_headers (snd (createComment this fetch_comment videoId comment_params)) = [bearer_headers token]"
    and "map req_headers (snd (listFolders this fetch_folders params)) = [bearer_headers token]"
    and "map req_headers (snd (createFolder this fetch_folder name parentId)) = [bearer_headers token]"
    and "map req_headers (snd (getFolder this fetch_folder folderId)) = [bearer_headers token]"
    and "map req_headers (snd (updateFolder this fetch_folder folderId folder_params)) = [bearer_headers token]"
    and "map req_headers (snd (deleteFolder this fetch_any folderId)) = [bearer_headers token]"
    and "map req_headers (snd (listWorkspaces this fetch_workspaces)) = [bearer_headers token]"
    and "map req_headers (snd (getWorkspace this fetch_workspace workspaceId)) = [bearer_headers token]"
    and "map req_headers (snd (listSpaces this fetch_spaces params)) = [bearer_headers token]"
    and "map req_headers (snd (getSpace this fetch_space spaceId)) = [bearer_headers token]"
    and "map req_headers (snd (listSpaceVideos this fetch_videos spaceId params)) = [bearer_headers token]"
    and "map req_headers (snd (addVideoToSpace this fetch_any spaceId videoId)) = [bearer_headers token]"
    and "map req_headers (snd (removeVideoFromSpace this fetch_any spaceId videoId)) = [bearer_headers token]"
    and "map req_headers (snd (getOEmbed this fetch_oembed url oembed_params)) = [bearer_headers token]"
    and "map req_headers (snd (createRecordLink this fetch_link link_params)) = [bearer_headers token]"
    and "map req_headers (snd (getEmbedHtml this fetch_video videoId embed_params)) = [bearer_headers token]"
    and "map req_headers (snd (moveVideoToFolder this fetch_any videoId folderId)) = [bearer_headers token]"
    and "map req_headers (snd (duplicateVideo this fetch_video videoId)) = [bearer_headers token]"
    and "map req_headers (snd (searchVideos this fetch_videos query params)) = [bearer_headers token]"
    and "map req_headers (snd (testConnection this fetch_user)) = [bearer_headers token]"
  using assms by (simp_all add: getCurrentUser_def listVideos_def getVideo_def updateVideo_def deleteVideo_def getTranscript_def getVideoAnalytics_def listComments_def createComment_def listFolders_def createFolder_def getFolder_def updateFolder_def deleteFolder_def listWorkspaces_def getWorkspace_def listSpaces_def getSpace_def listSpaceVideos_def addVideoToSpace_def removeVideoFromSpace_def getOEmbed_def createRecordLink_def getEmbedHtml_def moveVideoToFolder_def duplicateVideo_def searchVideos_def Let_def request_sends_one no_options_def with_method_def
      with_body_def spread_def)

lemma anonymous_client_token: "accessToken (credentials anonymous_client) = None"
  by (simp add: anonymous_client_def createLoomClient_def)

lemmas eval_parseInt = parseInt_def isWhiteSpace_def isDigit_def digits_value_def
  to_double_def round_magnitude_def bit_length.simps

lemmas eval_String = magnitude_text_def round_magnitude_def bit_length.simps shortest.simps
  exponent_text_def digits.simps digit_char_def

text \<open>
  Integers at the edges of the Number type: \<open>2^53 + 1\<close> is read as \<open>2^53\<close>, 310 nines as
  \<open>Infinity\<close>; \<open>2^64\<close> is printed with its 17 shortest digits, \<open>1e21\<close> in exponent form.
\<close>

lemma parseInt_rounds: "parseInt ''9007199254740993'' = Num 9007199254740992"
  by (simp add: eval_parseInt Let_def)

lemma parseInt_overflows: "parseInt (replicate 310 CHR ''9'') = Infinity"
  by (simp add: eval_parseInt Let_def eval_nat_numeral)

lemma String_number_shortest: "String_number (Num 18446744073709551616) = ''18446744073709552000''"
  by (simp add: eval_String Let_def)

lemma String_number_exponent: "String_number (Num 1000000000000000000000) = ''1e+21''"
  by (simp add: eval_String Let_def)

lemma magnitude_text_500: "magnitude_text 500 = ''500''"
  by (simp add: eval_String Let_def)

lemma String_640: "String_number (Num 640) = ''640''"
  by (simp add: eval_String Let_def)

lemma String_360: "String_number (Num 360) = ''360''"
  by (simp add: eval_String Let_def)

lemma truthy_number_iff: "truthy_number x = (\<not> (x = NaN \<or> x = Num 0))"
  by (cases x) simp_all

lemma or_num_cases:
  "String_number (or_num v (Num 640)) =
     (case v of
        None \<Rightarrow> ''640''
      | Some x \<Rightarrow> if x = NaN \<or> x = Num 0 then ''640'' else String_number x)"
  "String_number (or_num v (Num 360)) =
     (case v of
        None \<Rightarrow> ''360''
      | Some x \<Rightarrow> if x = NaN \<or> x = Num 0 then ''360'' else String_number x)"
  by (cases v; simp add: truthy_number_iff String_640 String_360 del: String_number.simps)+

lemma or_str_cases:
  "or_str v b = (case v of None \<Rightarrow> b | Some u \<Rightarrow> if u = [] then b else u)"
  by (cases v) simp_all

section \<open>Transcripts\<close>





section \<open>Listings\<close>


lemma request_then_reading:
  assumes "await_then (request this fetch endpoint options) (\<lambda>data. reading key data k) = (Inr r, log)"
  shows "\<exists>req response v d. log = [req] \<and> fetch req = Inr response \<and>
           resp_body response = Parsed v d \<and> r = k d"
proof -
  from await_then_success[OF assms] obtain x where
    x: "request this fetch endpoint options = (Inr x, log)" and k: "reading key x k = Inr r"
    by blast
  from reading_success[OF k] request_success[OF x] show ?thesis by auto
qed


lemmas run_ok =
  request_ok_fetch await_then_def reading_def Let_def no_options_def


lemma pagination_query_None [simp]: "pagination_query queryParams None = queryParams"
  by (simp add: pagination_query_def opt_def set_if_num_def set_if_str_def)

lemma pagination_query_falsy_perPage:
  "\<not> truthy_num (perPage p) \<Longrightarrow>
   pagination_query queryParams (Some p) = pagination_query queryParams (Some (p\<lparr>perPage := None\<rparr>))"
  by (cases "perPage p") (simp_all add: pagination_query_def opt_def set_if_num_def)

lemma pagination_query_falsy_cursor:
  "\<not> truthy_str (cursor p) \<Longrightarrow>
   pagination_query queryParams (Some p) = pagination_query queryParams (Some (p\<lparr>cursor := None\<rparr>))"
  by (cases "cursor p") (simp_all add: pagination_query_def opt_def set_if_str_def)

lemma pagination_query_falsy_both:
  "\<not> truthy_num (perPage p) \<Longrightarrow> \<not> truthy_str (cursor p) \<Longrightarrow>
   pagination_query queryParams (Some p) = queryParams"
  by (cases "perPage p"; cases "cursor p")
     (simp_all add: pagination_query_def opt_def set_if_num_def set_if_str_def)

text \<open>
  Claim C9. For each listing operation, a falsy \<open>perPage\<close> (absent, 0, NaN) or a falsy
  \<open>nextCursor\<close> (absent, empty) has the effect of the parameter left out, and both falsy
  have the effect of no parameter object: the whole outcome is the same, and with it the
  request sent and its URL.
\<close>

theorem falsy_pagination_parameter_omitted:
  "(\<not> truthy_num (perPage p) \<longrightarrow>
      listVideos this fetch_videos (Some p) = listVideos this fetch_videos (Some (p\<lparr>perPage := None\<rparr>)) \<and>
      listFolders this fetch_folders (Some p) = listFolders this fetch_folders (Some (p\<lparr>perPage := None\<rparr>)) \<and>
      listSpaces this fetch_spaces (Some p) = listSpaces this fetch_spaces (Some (p\<lparr>perPage := None\<rparr>)) \<and>
      listSpaceVideos this fetch_videos spaceId (Some p) =
        listSpaceVideos this fetch_videos spaceId (Some (p\<lparr>perPage := None\<rparr>)) \<and>
      searchVideos this fetch_videos query (Some p) =
        searchVideos this fetch_videos query (Some (p\<lparr>perPage := None\<rparr>))) \<and>
   (\<not> truthy_str (cursor p) \<longrightarrow>
      listVideos this fetch_videos (Some p) = listVideos this fetch_videos (Some (p\<lparr>cursor := None\<rparr>)) \<and>
      listFolders this fetch_folders (Some p) = listFolders this fetch_folders (Some (p\<lparr>cursor := None\<rparr>)) \<and>
      listSpaces this fetch_spaces (Some p) = listSpaces this fetch_spaces (Some (p\<lparr>cursor := None\<rparr>)) \<and>
      listSpaceVideos this fetch_videos spaceId (Some p) =
        listSpaceVideos this fetch_videos spaceId (Some (p\<lparr>cursor := None\<rparr>)) \<and>
      searchVideos this fetch_videos query (Some p) =
        searchVideos this fetch_videos query (Some (p\<lparr>cursor := None\<rparr>))) \<and>
   (\<not> truthy_num (perPage p) \<and> \<not> truthy_str (cursor p) \<longrightarrow>
      listVideos this fetch_videos (Some p) = listVideos this fetch_videos None \<and>
      listFolders this fetch_folders (Some p) = listFolders this fetch_folders None \<and>
      listSpaces this fetch_spaces (Some p) = listSpaces this fetch_spaces None \<and>
      listSpaceVideos this fetch_videos spaceId (Some p) = listSpaceVideos this fetch_videos spaceId None \<and>
      searchVideos this fetch_videos query (Some p) = searchVideos this fetch_videos query None)"
proof (intro conjI impI)
  assume f: "\<not> truthy_num (perPage p)"
  note q = pagination_query_falsy_perPage[OF f]
  show "listVideos this fetch_videos (Some p) = listVideos this fetch_videos (Some (p\<lparr>perPage := None\<rparr>))"
    by (simp only: listVideos_def q)
  show "listFolders this fetch_folders (Some p) = listFolders this fetch_folders (Some (p\<lparr>perPage := None\<rparr>))"
    by (simp only: listFolders_def q)
  show "listSpaces this fetch_spaces (Some p) = listSpaces this fetch_spaces (Some (p\<lparr>perPage := None\<rparr>))"
    by (simp only: listSpaces_def q)
  show "listSpaceVideos this fetch_videos spaceId (Some p) =
        listSpaceVideos this fetch_videos spaceId (Some (p\<lparr>perPage := None\<rparr>))"
    by (simp only: listSpaceVideos_def q)
  show "searchVideos this fetch_videos query (Some p) =
        searchVideos this fetch_videos query (Some (p\<lparr>perPage := None\<rparr>))"
    by (simp only: searchVideos_def q)
next
  assume f: "\<not> truthy_str (cursor p)"
  note q = pagination_query_falsy_cursor[OF f]
  show "listVideos this fetch_videos (Some p) = listVideos this fetch_videos (Some (p\<lparr>cursor := None\<rparr>))"
    by (simp only: listVideos_def q)
  show "listFolders this fetch_folders (Some p) = listFolders this fetch_folders (Some (p\<lparr>cursor := None\<rparr>))"
    by (simp only: listFolders_def q)
  show "listSpaces this fetch_spaces (Some p) = listSpaces this fetch_spaces (Some (p\<lparr>cursor := None\<rparr>))"
    by (simp only: listSpaces_def q)
  show "listSpaceVideos this fetch_videos spaceId (Some p) =
        listSpaceVideos this fetch_videos spaceId (Some (p\<lparr>cursor := None\<rparr>))"
    by (simp only: listSpaceVideos_def q)
  show "searchVideos this fetch_videos query (Some p) =
        searchVideos this fetch_videos query (Some (p\<lparr>cursor := None\<rparr>))"
    by (simp only: searchVideos_def q)
next
  assume "\<not> truthy_num (perPage p) \<and> \<not> truthy_str (cursor p)"
  then have q: "\<And>queryParams. pagination_query queryParams (Some p) = pagination_query queryParams None"
    by (simp add: pagination_query_falsy_both)
  show "listVideos this fetch_videos (Some p) = listVideos this fetch_videos None"
    by (simp only: listVideos_def q)
  show "listFolders this fetch_folders (Some p) = listFolders this fetch_folders None"
    by (simp only: listFolders_def q)
  show "listSpaces this fetch_spaces (Some p) = listSpaces this fetch_spaces None"
    by (simp only: listSpaces_def q)
  show "listSpaceVideos this fetch_videos spaceId (Some p) = listSpaceVideos this fetch_videos spaceId None"
    by (simp only: listSpaceVideos_def q)
  show "searchVideos this fetch_videos query (Some p) = searchVideos this fetch_videos query None"
    by (simp only: searchVideos_def q)
qed

lemma fresh_page_urls:
  "map req_url (snd (listVideos sample_client (ok_fetch more_videos_json more_videos) None)) = [''https://api.loom.com/v1/videos'']"
  "map req_url (snd (listFolders sample_client (ok_fetch more_folders_json more_folders) None)) = [''https://api.loom.com/v1/folders'']"
  "map req_url (snd (listSpaces sample_client (ok_fetch more_spaces_json more_spaces) None)) = [''https://api.loom.com/v1/spaces'']"
  "map req_url (snd (listSpaceVideos sample_client (ok_fetch more_videos_json more_videos) ''s1'' None)) = [''https://api.loom.com/v1/spaces/s1/videos'']"
  "map req_url (snd (searchVideos sample_client (ok_fetch more_videos_json more_videos) ''demo'' None)) = [''https://api.loom.com/v1/videos/search?q=demo'']"
  by (simp_all add: listVideos_def listFolders_def listSpaces_def listSpaceVideos_def searchVideos_def
      run_ok URLSearchParams_toString_def URLSearchParams_set_def API_BASE_URL_def
      urlencode_def urlencode_char_def isUrlSafe_def)

text \<open>With \<open>perPage = 0\<close> and \<open>nextCursor = ""\<close> the URLs are those of a first page.\<close>

theorem falsy_pagination_parameter_omitted_witness:
  "\<not> truthy_num (perPage falsy_params) \<and> \<not> truthy_str (cursor falsy_params) \<and>
   map req_url (snd (listVideos sample_client (ok_fetch more_videos_json more_videos) (Some falsy_params))) =
     [''https://api.loom.com/v1/videos''] \<and>
   map req_url (snd (listFolders sample_client (ok_fetch more_folders_json more_folders) (Some falsy_params))) =
     [''https://api.loom.com/v1/folders''] \<and>
   map req_url (snd (listSpaces sample_client (ok_fetch more_spaces_json more_spaces) (Some falsy_params))) =
     [''https://api.loom.com/v1/spaces''] \<and>
   map req_url (snd (listSpaceVideos sample_client (ok_fetch more_videos_json more_videos) ''s1'' (Some falsy_params))) =
     [''https://api.loom.com/v1/spaces/s1/videos''] \<and>
   map req_url (snd (searchVideos sample_client (ok_fetch more_videos_json more_videos) ''demo'' (Some falsy_params))) =
     [''https://api.loom.com/v1/videos/search?q=demo'']"
proof -
  have f: "\<not> truthy_num (perPage falsy_params) \<and> \<not> truthy_str (cursor falsy_params)"
    by (simp add: falsy_params_def)
  from falsy_pagination_parameter_omitted[of falsy_params, THEN conjunct2, THEN conjunct2, THEN mp, OF f]
  show ?thesis using f by (simp add: fresh_page_urls)
qed

section \<open>Connection test\<close>

text \<open>
  Claim C7. \<open>testConnection\<close> always returns a result. If the user lookup returns a user,
  the result is connected and its message is \<open>Connected as\<close> followed by the user's name,
  the \<open>name\<close> of the response body; if the lookup throws, the result is not connected and
  carries the message of the error thrown.
\<close>

theorem testConnection_downgrades_failure:
  "(\<exists>res. fst (testConnection this fetch) = Inr res) \<and>
   (\<forall>user log. getCurrentUser this fetch = (Inr user, log) \<longrightarrow>
      testConnection this fetch =
        (Inr \<lparr>connected = True, message = ''Connected as '' @ user_name user\<rparr>, log) \<and>
      (\<exists>req response v d. fetch req = Inr response \<and> resp_body response = Parsed v d \<and>
         user_name user = wu_name d)) \<and>
   (\<forall>e log. getCurrentUser this fetch = (Inl e, log) \<longrightarrow>
      testConnection this fetch = (Inr \<lparr>connected = False, message = error_message e\<rparr>, log))"
proof (intro conjI allI impI)
  show "\<exists>res. fst (testConnection this fetch) = Inr res"
    by (simp add: testConnection_def split: prod.splits sum.splits)
next
  fix user log assume u: "getCurrentUser this fetch = (Inr user, log)"
  then show "testConnection this fetch =
        (Inr \<lparr>connected = True, message = ''Connected as '' @ user_name user\<rparr>, log)"
    by (simp add: testConnection_def)
  from request_then_reading[OF u[unfolded getCurrentUser_def]]
  obtain req response v d where "fetch req = Inr response" "resp_body response = Parsed v d"
    "user = to_LoomUser d" by blast
  moreover from this have "user_name user = wu_name d" by (simp add: to_LoomUser_def)
  ultimately show "\<exists>req response v d. fetch req = Inr response \<and> resp_body response = Parsed v d \<and>
         user_name user = wu_name d"
    by blast
next
  fix e log assume "getCurrentUser this fetch = (Inl e, log)"
  then show "testConnection this fetch = (Inr \<lparr>connected = False, message = error_message e\<rparr>, log)"
    by (cases e) (simp_all add: testConnection_def)
qed

text \<open>A lookup that answers with the user Ada, and one whose \<open>fetch\<close> rejects.\<close>

theorem testConnection_downgrades_failure_witness:
  "fst (testConnection sample_client (ok_fetch sample_user_json sample_user)) =
     Inr \<lparr>connected = True, message = ''Connected as Ada''\<rparr> \<and>
   fst (testConnection sample_client failing_fetch) =
     Inr \<lparr>connected = False, message = ''fetch failed''\<rparr>"
proof -
  obtain log where ok: "getCurrentUser sample_client (ok_fetch sample_user_json sample_user) = (Inr (to_LoomUser sample_user), log)"
    by (simp add: getCurrentUser_def run_ok)
  obtain log' where bad: "getCurrentUser sample_client failing_fetch = (Inl (TypeError ''fetch failed''), log')"
    by (simp add: getCurrentUser_def request_def getAuthHeaders_def sample_client_token failing_fetch_def
        await_then_def Let_def)
  from testConnection_downgrades_failure[of sample_client "ok_fetch sample_user_json sample_user", THEN conjunct2, THEN conjunct1,
      rule_format, OF ok]
    testConnection_downgrades_failure[of sample_client failing_fetch, THEN conjunct2, THEN conjunct2,
      rule_format, OF bad]
  show ?thesis by (simp add: to_LoomUser_def sample_user_def)
qed

section \<open>Embed HTML\<close>

text \<open>
  Claim C6, amended. Once the video is fetched, \<open>getEmbedHtml\<close> returns the iframe whose
  \<open>src\<close> is the video's embed URL when that is a non-empty string, else
  \<open>https://www.loom.com/embed/<videoId>\<close>, followed by \<open>?autoplay=1\<close> exactly when the
  autoplay flag is true; whose width is the given width when that is a number other
  than 0, else 640; and whose height is the given height when that is a number other than
  0, else 360. A width or height of 0 (or NaN) counts as not given; a given one is
  written as JavaScript prints a Number.
\<close>

theorem getEmbedHtml_iframe:
  assumes "getVideo this fetch videoId = (Inr video, log)"
    and "(params = None \<and> w = None \<and> h = None \<and> a = None)
         \<or> params = Some \<lparr>emb_width = w, emb_height = h, emb_autoplay = a\<rparr>"
  shows "getEmbedHtml this fetch videoId params =
    (Inr \<lparr>html =
       ''<iframe src=\"''
       @ (case video_embedUrl video of
            None \<Rightarrow> ''https://www.loom.com/embed/'' @ videoId
          | Some u \<Rightarrow> if u = [] then ''https://www.loom.com/embed/'' @ videoId else u)
       @ (if a = Some True then ''?autoplay=1'' else [])
       @ ''\" width=\"''
       @ (case w of
            None \<Rightarrow> ''640''
          | Some x \<Rightarrow> if x = NaN \<or> x = Num 0 then ''640'' else String_number x)
       @ ''\" height=\"''
       @ (case h of
            None \<Rightarrow> ''360''
          | Some x \<Rightarrow> if x = NaN \<or> x = Num 0 then ''360'' else String_number x)
       @ ''\" frameborder=\"0\" webkitallowfullscreen mozallowfullscreen allowfullscreen></iframe>''\<rparr>,
     log)"
proof -
  have a: "truthy_bool (opt params emb_autoplay) = (a = Some True)"
    using assms(2) by (cases a) (auto simp add: opt_def)
  have w: "opt params emb_width = w" and h: "opt params emb_height = h"
    using assms(2) by (auto simp add: opt_def)
  show ?thesis
    by (simp only: getEmbedHtml_def assms(1) await_then_def fst_conv snd_conv sum.case Let_def
        a w h or_num_cases or_str_cases)
qed

text \<open>
  The video \<open>abc123\<close> without embed URL: with width 800, height 450 and autoplay on; and
  with width \<open>1e21\<close>, which is printed in exponent form, and height \<open>2^53 + 1\<close>, which is the
  Number \<open>2^53\<close>.
\<close>

theorem getEmbedHtml_iframe_witness:
  "fst (getEmbedHtml sample_client (ok_fetch sample_video_json sample_video) ''abc123'' (Some wide_autoplay)) =
     Inr \<lparr>html = ''<iframe src=\"https://www.loom.com/embed/abc123?autoplay=1\" width=\"800\" height=\"450\" frameborder=\"0\" webkitallowfullscreen mozallowfullscreen allowfullscreen></iframe>''\<rparr> \<and>
   fst (getEmbedHtml sample_client (ok_fetch sample_video_json sample_video) ''abc123'' (Some huge_frame)) =
     Inr \<lparr>html = ''<iframe src=\"https://www.loom.com/embed/abc123\" width=\"1e+21\" height=\"9007199254740992\" frameborder=\"0\" webkitallowfullscreen mozallowfullscreen allowfullscreen></iframe>''\<rparr>"
proof -
  obtain log where v: "getVideo sample_client (ok_fetch sample_video_json sample_video) ''abc123'' = (Inr (to_LoomVideo sample_video), log)"
    by (simp add: getVideo_def run_ok)
  have e: "video_embedUrl (to_LoomVideo sample_video) = None"
    by (simp add: to_LoomVideo_def sample_video_def)
  note wide = getEmbedHtml_iframe[OF v, of "Some wide_autoplay" "Some (Num 800)" "Some (Num 450)" "Some True"]
  note huge = getEmbedHtml_iframe[OF v, of "Some huge_frame" "Some (Num 1000000000000000000000)"
      "Some (Num 9007199254740993)" None]
  from wide have "fst (getEmbedHtml sample_client (ok_fetch sample_video_json sample_video) ''abc123'' (Some wide_autoplay)) =
     Inr \<lparr>html = ''<iframe src=\"https://www.loom.com/embed/abc123?autoplay=1\" width=\"800\" height=\"450\" frameborder=\"0\" webkitallowfullscreen mozallowfullscreen allowfullscreen></iframe>''\<rparr>"
    by (simp add: wide_autoplay_def e eval_String Let_def)
  moreover from huge have "fst (getEmbedHtml sample_client (ok_fetch sample_video_json sample_video) ''abc123'' (Some huge_frame)) =
     Inr \<lparr>html = ''<iframe src=\"https://www.loom.com/embed/abc123\" width=\"1e+21\" height=\"9007199254740992\" frameborder=\"0\" webkitallowfullscreen mozallowfullscreen allowfullscreen></iframe>''\<rparr>"
    by (simp add: huge_frame_def e eval_String Let_def)
  ultimately show ?thesis by (rule conjI)
qed

text \<open>
  Claim C6 as stated fails for a given width of 0: the attribute is the default 640, not
  the given value.
\<close>

theorem zero_width_counterexample:
  "fst (getEmbedHtml sample_client (ok_fetch sample_video_json sample_video) ''abc123'' (Some zero_width)) =
     Inr \<lparr>html = ''<iframe src=\"https://www.loom.com/embed/abc123?autoplay=1\" width=\"640\" height=\"450\" frameborder=\"0\" webkitallowfullscreen mozallowfullscreen allowfullscreen></iframe>''\<rparr> \<and>
   fst (getEmbedHtml sample_client (ok_fetch sample_video_json sample_video) ''abc123'' (Some zero_width)) \<noteq>
     Inr \<lparr>html = ''<iframe src=\"https://www.loom.com/embed/abc123?autoplay=1\" width=\"0\" height=\"450\" frameborder=\"0\" webkitallowfullscreen mozallowfullscreen allowfullscreen></iframe>''\<rparr>"
  by (simp add: getEmbedHtml_def getVideo_def run_ok zero_width_def to_LoomVideo_def sample_video_def
      opt_def eval_String)

section \<open>Missing credentials\<close>

text \<open>
  Claim C2, amended. With an absent or empty access token every operation other than
  \<open>testConnection\<close> fails with the Authentication error of \<open>getAuthHeaders\<close> and hands
  no request to \<open>fetch\<close>; \<open>testConnection\<close> hands no request to \<open>fetch\<close> either, and
  returns a result that is not connected and carries the message of that error. With a
  non-empty token every operation sends exactly one request, whose headers are exactly
  \<open>Authorization: Bearer <token>\<close> and \<open>Content-Type: application/json\<close>.
\<close>

theorem missing_token_sends_nothing:
  "(\<not> truthy_str (accessToken (credentials this)) \<longrightarrow>
      getCurrentUser this fetch_user = (Inl no_credentials, []) \<and>
      listVideos this fetch_videos params = (Inl no_credentials, []) \<and>
      getVideo this fetch_video videoId = (Inl no_credentials, []) \<and>
      updateVideo this fetch_id videoId update_params = (Inl no_credentials, []) \<and>
      deleteVideo this fetch_any videoId = (Inl no_credentials, []) \<and>
      getTranscript this fetch_transcript videoId = (Inl no_credentials, []) \<and>
      getVideoAnalytics this fetch_analytics videoId = (Inl no_credentials, []) \<and>
      listComments this fetch_comments videoId = (Inl no_credentials, []) \<and>
      createComment this fetch_comment videoId comment_params = (Inl no_credentials, []) \<and>
      listFolders this fetch_folders params = (Inl no_credentials, []) \<and>
      createFolder this fetch_folder name parentId = (Inl no_credentials, []) \<and>
      getFolder this fetch_folder folderId = (Inl no_credentials, []) \<and>
      updateFolder this fetch_folder folderId folder_params = (Inl no_credentials, []) \<and>
      deleteFolder this fetch_any folderId = (Inl no_credentials, []) \<and>
      listWorkspaces this fetch_workspaces = (Inl no_credentials, []) \<and>
      getWorkspace this fetch_workspace workspaceId = (Inl no_credentials, []) \<and>
      listSpaces this fetch_spaces params = (Inl no_credentials, []) \<and>
      getSpace this fetch_space spaceId = (Inl no_credentials, []) \<and>
      listSpaceVideos this fetch_videos spaceId params = (Inl no_credentials, []) \<and>
      addVideoToSpace this fetch_any spaceId videoId = (Inl no_credentials, []) \<and>
      removeVideoFromSpace this fetch_any spaceId videoId = (Inl no_credentials, []) \<and>
      getOEmbed this fetch_oembed url oembed_params = (Inl no_credentials, []) \<and>
      createRecordLink this fetch_link link_params = (Inl no_credentials, []) \<and>
      getEmbedHtml this fetch_video videoId embed_params = (Inl no_credentials, []) \<and>
      moveVideoToFolder this fetch_any videoId folderId = (Inl no_credentials, []) \<and>
      duplicateVideo this fetch_video videoId = (Inl no_credentials, []) \<and>
      searchVideos this fetch_videos query params = (Inl no_credentials, []) \<and>
      testConnection this fetch_user =
        (Inr \<lparr>connected = False,
              message = ''No credentials provided. Include X-Loom-Access-Token header.''\<rparr>, [])) \<and>
   (accessToken (credentials this) = Some token \<and> token \<noteq> [] \<longrightarrow>
      map req_headers (snd (getCurrentUser this fetch_user)) = [bearer_headers token] \<and>
      map req_headers (snd (listVideos this fetch_videos params)) = [bearer_headers token] \<and>
      map req_headers (snd (getVideo this fetch_video videoId)) = [bearer_headers token] \<and>
      map req_headers (snd (updateVideo this fetch_id videoId update_params)) = [bearer_headers token] \<and>
      map req_headers (snd (deleteVideo this fetch_any videoId)) = [bearer_headers token] \<and>
      map req_headers (snd (getTranscript this fetch_transcript videoId)) = [bearer_headers token] \<and>
      map req_headers (snd (getVideoAnalytics this fetch_analytics videoId)) = [bearer_headers token] \<and>
      map req_headers (snd (listComments this fetch_comments videoId)) = [bearer_headers token] \<and>
      map req_headers (snd (createComment this fetch_comment videoId comment_params)) = [bearer_headers token] \<and>
      map req_headers (snd (listFolders this fetch_folders params)) = [bearer_headers token] \<and>
      map req_headers (snd (createFolder this fetch_folder name parentId)) = [bearer_headers token] \<and>
      map req_headers (snd (getFolder this fetch_folder folderId)) = [bearer_headers token] \<and>
      map req_headers (snd (updateFolder this fetch_folder folderId folder_params)) = [bearer_headers token] \<and>
      map req_headers (snd (deleteFolder this fetch_any folderId)) = [bearer_headers token] \<and>
      map req_headers (snd (listWorkspaces this fetch_workspaces)) = [bearer_headers token] \<and>
      map req_headers (snd (getWorkspace this fetch_workspace workspaceId)) = [bearer_headers token] \<and>
      map req_headers (snd (listSpaces this fetch_spaces params)) = [bearer_headers token] \<and>
      map req_headers (snd (getSpace this fetch_space spaceId)) = [bearer_headers token] \<and>
      map req_headers (snd (listSpaceVideos this fetch_videos spaceId params)) = [bearer_headers token] \<and>
      map req_headers (snd (addVideoToSpace this fetch_any spaceId videoId)) = [bearer_headers token] \<and>
      map req_headers (snd (removeVideoFromSpace this fetch_any spaceId videoId)) = [bearer_headers token] \<and>
      map req_headers (snd (getOEmbed this fetch_oembed url oembed_params)) = [bearer_headers token] \<and>
      map req_headers (snd (createRecordLink this fetch_link link_params)) = [bearer_headers token] \<and>
      map req_headers (snd (getEmbedHtml this fetch_video videoId embed_params)) = [bearer_headers token] \<and>
      map req_headers (snd (moveVideoToFolder this fetch_any videoId folderId)) = [bearer_headers token] \<and>
      map req_headers (snd (duplicateVideo this fetch_video videoId)) = [bearer_headers token] \<and>
      map req_headers (snd (searchVideos this fetch_videos query params)) = [bearer_headers token] \<and>
      map req_headers (snd (testConnection this fetch_user)) = [bearer_headers token])"
proof (intro conjI impI)
  assume none: "\<not> truthy_str (accessToken (credentials this))"
  note fails = ops_no_token[OF none]
  show "getCurrentUser this fetch_user = (Inl no_credentials, [])"
    by (rule fails)
  show "listVideos this fetch_videos params = (Inl no_credentials, [])"
    by (rule fails)
  show "getVideo this fetch_video videoId = (Inl no_credentials, [])"
    by (rule fails)
  show "updateVideo this fetch_id videoId update_params = (Inl no_credentials, [])"
    by (rule fails)
  show "deleteVideo this fetch_any videoId = (Inl no_credentials, [])"
    by (rule fails)
  show "getTranscript this fetch_transcript videoId = (Inl no_credentials, [])"
    by (rule fails)
  show "getVideoAnalytics this fetch_analytics videoId = (Inl no_credentials, [])"
    by (rule fails)
  show "listComments this fetch_comments videoId = (Inl no_credentials, [])"
    by (rule fails)
  show "createComment this fetch_comment videoId comment_params = (Inl no_credentials, [])"
    by (rule fails)
  show "listFolders this fetch_folders params = (Inl no_credentials, [])"
    by (rule fails)
  show "createFolder this fetch_folder name parentId = (Inl no_credentials, [])"
    by (rule fails)
  show "getFolder this fetch_folder folderId = (Inl no_credentials, [])"
    by (rule fails)
  show "updateFolder this fetch_folder folderId folder_params = (Inl no_credentials, [])"
    by (rule fails)
  show "deleteFolder this fetch_any folderId = (Inl no_credentials, [])"
    by (rule fails)
  show "listWorkspaces this fetch_workspaces = (Inl no_credentials, [])"
    by (rule fails)
  show "getWorkspace this fetch_workspace workspaceId = (Inl no_credentials, [])"
    by (rule fails)
  show "listSpaces this fetch_spaces params = (Inl no_credentials, [])"
    by (rule fails)
  show "getSpace this fetch_space spaceId = (Inl no_credentials, [])"
    by (rule fails)
  show "listSpaceVideos this fetch_videos spaceId params = (Inl no_credentials, [])"
    by (rule fails)
  show "addVideoToSpace this fetch_any spaceId videoId = (Inl no_credentials, [])"
    by (rule fails)
  show "removeVideoFromSpace this fetch_any spaceId videoId = (Inl no_credentials, [])"
    by (rule fails)
  show "getOEmbed this fetch_oembed url oembed_params = (Inl no_credentials, [])"
    by (rule fails)
  show "createRecordLink this fetch_link link_params = (Inl no_credentials, [])"
    by (rule fails)
  show "getEmbedHtml this fetch_video videoId embed_params = (Inl no_credentials, [])"
    by (rule fails)
  show "moveVideoToFolder this fetch_any videoId folderId = (Inl no_credentials, [])"
    by (rule fails)
  show "duplicateVideo this fetch_video videoId = (Inl no_credentials, [])"
    by (rule fails)
  show "searchVideos this fetch_videos query params = (Inl no_credentials, [])"
    by (rule fails)
  show "testConnection this fetch_user =
        (Inr \<lparr>connected = False,
              message = ''No credentials provided. Include X-Loom-Access-Token header.''\<rparr>, [])"
    by (simp add: testConnection_def fails no_credentials_def)
next
  assume "accessToken (credentials this) = Some token \<and> token \<noteq> []"
  then have some: "accessToken (credentials this) = Some token" and ne: "token \<noteq> []"
    by simp_all
  note sent = ops_headers[OF some ne]
  show "map req_headers (snd (getCurrentUser this fetch_user)) = [bearer_headers token]"
    by (rule sent)
  show "map req_headers (snd (listVideos this fetch_videos params)) = [bearer_headers token]"
    by (rule sent)
  show "map req_headers (snd (getVideo this fetch_video videoId)) = [bearer_headers token]"
    by (rule sent)
  show "map req_headers (snd (updateVideo this fetch_id videoId update_params)) = [bearer_headers token]"
    by (rule sent)
  show "map req_headers (snd (deleteVideo this fetch_any videoId)) = [bearer_headers token]"
    by (rule sent)
  show "map req_headers (snd (getTranscript this fetch_transcript videoId)) = [bearer_headers token]"
    by (rule sent)
  show "map req_headers (snd (getVideoAnalytics this fetch_analytics videoId)) = [bearer_headers token]"
    by (rule sent)
  show "map req_headers (snd (listComments this fetch_comments videoId)) = [bearer_headers token]"
    by (rule sent)
  show "map req_headers (snd (createComment this fetch_comment videoId comment_params)) = [bearer_headers token]"
    by (rule sent)
  show "map req_headers (snd (listFolders this fetch_folders params)) = [bearer_headers token]"
    by (rule sent)
  show "map req_headers (snd (createFolder this fetch_folder name parentId)) = [bearer_headers token]"
    by (rule sent)
  show "map req_headers (snd (getFolder this fetch_folder folderId)) = [bearer_headers token]"
    by (rule sent)
  show "map req_headers (snd (updateFolder this fetch_folder folderId folder_params)) = [bearer_headers token]"
    by (rule sent)
  show "map req_headers (snd (deleteFolder this fetch_any folderId)) = [bearer_headers token]"
    by (rule sent)
  show "map req_headers (snd (listWorkspaces this fetch_workspaces)) = [bearer_headers token]"
    by (rule sent)
  show "map req_headers (snd (getWorkspace this fetch_workspace workspaceId)) = [bearer_headers token]"
    by (rule sent)
  show "map req_headers (snd (listSpaces this fetch_spaces params)) = [bearer_headers token]"
    by (rule sent)
  show "map req_headers (snd (getSpace this fetch_space spaceId)) = [bearer_headers token]"
    by (rule sent)
  show "map req_headers (snd (listSpaceVideos this fetch_videos spaceId params)) = [bearer_headers token]"
    by (rule sent)
  show "map req_headers (snd (addVideoToSpace this fetch_any spaceId videoId)) = [bearer_headers token]"
    by (rule sent)
  show "map req_headers (snd (removeVideoFromSpace this fetch_any spaceId videoId)) = [bearer_headers token]"
    by (rule sent)
  show "map req_headers (snd (getOEmbed this fetch_oembed url oembed_params)) = [bearer_headers token]"
    by (rule sent)
  show "map req_headers (snd (createRecordLink this fetch_link link_params)) = [bearer_headers token]"
    by (rule sent)
  show "map req_headers (snd (getEmbedHtml this fetch_video videoId embed_params)) = [bearer_headers token]"
    by (rule sent)
  show "map req_headers (snd (moveVideoToFolder this fetch_any videoId folderId)) = [bearer_headers token]"
    by (rule sent)
  show "map req_headers (snd (duplicateVideo this fetch_video videoId)) = [bearer_headers token]"
    by (rule sent)
  show "map req_headers (snd (searchVideos this fetch_videos query params)) = [bearer_headers token]"
    by (rule sent)
  show "map req_headers (snd (testConnection this fetch_user)) = [bearer_headers token]"
    by (rule sent)
qed

text \<open>
  A client without token, one with the empty token and one with the token \<open>token-1\<close>.
\<close>

theorem missing_token_sends_nothing_witness:
  "\<not> truthy_str (accessToken (credentials anonymous_client)) \<and>
   getVideo anonymous_client failing_fetch ''abc123'' =
     (Inl (AuthenticationError ''No credentials provided. Include X-Loom-Access-Token header.''), []) \<and>
   \<not> truthy_str (accessToken (credentials empty_token_client)) \<and>
   deleteFolder empty_token_client (ok_fetch (JObj []) ()) ''f1'' =
     (Inl (AuthenticationError ''No credentials provided. Include X-Loom-Access-Token header.''), []) \<and>
   accessToken (credentials sample_client) = Some ''token-1'' \<and>
   map req_headers (snd (getVideo sample_client (ok_fetch sample_video_json sample_video) ''abc123'')) =
     [[(''Authorization'', ''Bearer token-1''), (''Content-Type'', ''application/json'')]] \<and>
   map req_headers (snd (deleteFolder sample_client (ok_fetch (JObj []) ()) ''f1'')) =
     [[(''Authorization'', ''Bearer token-1''), (''Content-Type'', ''application/json'')]]"
proof -
  have none: "\<not> truthy_str (accessToken (credentials anonymous_client))"
    by (simp add: anonymous_client_token)
  have empty: "\<not> truthy_str (accessToken (credentials empty_token_client))"
    by (simp add: empty_token_client_def createLoomClient_def)
  have some: "accessToken (credentials sample_client) = Some ''token-1'' \<and> ''token-1'' \<noteq> []"
    by (simp add: sample_client_token)
  note a = missing_token_sends_nothing[where this = anonymous_client, THEN conjunct1, THEN mp, OF none]
  note b = missing_token_sends_nothing[where this = empty_token_client, THEN conjunct1, THEN mp,
      OF empty]
  note c = missing_token_sends_nothing[where this = sample_client and token = "''token-1''",
      THEN conjunct2, THEN mp, OF some]
  show ?thesis
    using none empty some by (simp add: a b c no_credentials_def bearer_headers_def)
qed

text \<open>
  Claim C2 as stated fails for \<open>testConnection\<close>: without token the call does not fail,
  it returns a result.
\<close>

theorem testConnection_without_token_counterexample:
  "testConnection anonymous_client failing_fetch =
     (Inr \<lparr>connected = False,
           message = ''No credentials provided. Include X-Loom-Access-Token header.''\<rparr>, []) \<and>
   fst (testConnection anonymous_client failing_fetch) \<noteq> Inl no_credentials"
  by (simp add: testConnection_def getCurrentUser_def request_def getAuthHeaders_def
      anonymous_client_token)

text \<open>
  Claim C8, amended. An inbound request whose \<open>X-Loom-Access-Token\<close> header is present
  and empty is parsed to the credentials of the same request without that header: the
  access token is absent. Validation then fails with its missing-credentials error,
  every operation of a client made from these credentials other than \<open>testConnection\<close>
  fails with the Authentication error of \<open>getAuthHeaders\<close> and sends nothing, and
  \<open>testConnection\<close> returns the result that is not connected, all as for the header
  missing. An empty \<open>X-Loom-Base-URL\<close> header likewise gives an absent base URL, and the
  client uses the default one.
\<close>

theorem empty_header_is_absent:
  "(headers_get inbound ''X-Loom-Access-Token'' = Some [] \<longrightarrow>
      parseTenantCredentials inbound =
        parseTenantCredentials
          (inbound\<lparr>headers_get := (headers_get inbound)(''X-Loom-Access-Token'' := None)\<rparr>) \<and>
      accessToken (parseTenantCredentials inbound) = None \<and>
      validateCredentials (parseTenantCredentials inbound) =
        Inl (Error ''Missing credentials. Provide X-Loom-Access-Token header.'') \<and>
      getCurrentUser (createLoomClient (parseTenantCredentials inbound)) fetch_user =
        (Inl no_credentials, []) \<and>
      listVideos (createLoomClient (parseTenantCredentials inbound)) fetch_videos params =
        (Inl no_credentials, []) \<and>
      getVideo (createLoomClient (parseTenantCredentials inbound)) fetch_video videoId =
        (Inl no_credentials, []) \<and>
      updateVideo (createLoomClient (parseTenantCredentials inbound)) fetch_id videoId update_params =
        (Inl no_credentials, []) \<and>
      deleteVideo (createLoomClient (parseTenantCredentials inbound)) fetch_any videoId =
        (Inl no_credentials, []) \<and>
      getTranscript (createLoomClient (parseTenantCredentials inbound)) fetch_transcript videoId =
        (Inl no_credentials, []) \<and>
      getVideoAnalytics (createLoomClient (parseTenantCredentials inbound)) fetch_analytics videoId =
        (Inl no_credentials, []) \<and>
      listComments (createLoomClient (parseTenantCredentials inbound)) fetch_comments videoId =
        (Inl no_credentials, []) \<and>
      createComment (createLoomClient (parseTenantCredentials inbound)) fetch_comment videoId comment_params =
        (Inl no_credentials, []) \<and>
      listFolders (createLoomClient (parseTenantCredentials inbound)) fetch_folders params =
        (Inl no_credentials, []) \<and>
      createFolder (createLoomClient (parseTenantCredentials inbound)) fetch_folder name parentId =
        (Inl no_credentials, []) \<and>
      getFolder (createLoomClient (parseTenantCredentials inbound)) fetch_folder folderId =
        (Inl no_credentials, []) \<and>
      updateFolder (createLoomClient (parseTenantCredentials inbound)) fetch_folder folderId folder_params =
        (Inl no_credentials, []) \<and>
      deleteFolder (createLoomClient (parseTenantCredentials inbound)) fetch_any folderId =
        (Inl no_credentials, []) \<and>
      listWorkspaces (createLoomClient (parseTenantCredentials inbound)) fetch_workspaces =
        (Inl no_credentials, []) \<and>
      getWorkspace (createLoomClient (parseTenantCredentials inbound)) fetch_workspace workspaceId =
        (Inl no_credentials, []) \<and>
      listSpaces (createLoomClient (parseTenantCredentials inbound)) fetch_spaces params =
        (Inl no_credentials, []) \<and>
      getSpace (createLoomClient (parseTenantCredentials inbound)) fetch_space spaceId =
        (Inl no_credentials, []) \<and>
      listSpaceVideos (createLoomClient (parseTenantCredentials inbound)) fetch_videos spaceId params =
        (Inl no_credentials, []) \<and>
      addVideoToSpace (createLoomClient (parseTenantCredentials inbound)) fetch_any spaceId videoId =
        (Inl no_credentials, []) \<and>
      removeVideoFromSpace (createLoomClient (parseTenantCredentials inbound)) fetch_any spaceId videoId =
        (Inl no_credentials, []) \<and>
      getOEmbed (createLoomClient (parseTenantCredentials inbound)) fetch_oembed url oembed_params =
        (Inl no_credentials, []) \<and>
      createRecordLink (createLoomClient (parseTenantCredentials inbound)) fetch_link link_params =
        (Inl no_credentials, []) \<and>
      getEmbedHtml (createLoomClient (parseTenantCredentials inbound)) fetch_video videoId embed_params =
        (Inl no_credentials, []) \<and>
      moveVideoToFolder (createLoomClient (parseTenantCredentials inbound)) fetch_any videoId folderId =
        (Inl no_credentials, []) \<and>
      duplicateVideo (createLoomClient (parseTenantCredentials inbound)) fetch_video videoId =
        (Inl no_credentials, []) \<and>
      searchVideos (createLoomClient (parseTenantCredentials inbound)) fetch_videos query params =
        (Inl no_credentials, []) \<and>
      testConnection (createLoomClient (parseTenantCredentials inbound)) fetch_user =
        (Inr \<lparr>connected = False,
              message = ''No credentials provided. Include X-Loom-Access-Token header.''\<rparr>, [])) \<and>
   (headers_get inbound ''X-Loom-Base-URL'' = Some [] \<longrightarrow>
      parseTenantCredentials inbound =
        parseTenantCredentials
          (inbound\<lparr>headers_get := (headers_get inbound)(''X-Loom-Base-URL'' := None)\<rparr>) \<and>
      baseUrl (parseTenantCredentials inbound) = None \<and>
      this_baseUrl (createLoomClient (parseTenantCredentials inbound)) = API_BASE_URL)"
proof (intro conjI impI)
  assume e: "headers_get inbound ''X-Loom-Access-Token'' = Some []"
  then show "parseTenantCredentials inbound =
        parseTenantCredentials
          (inbound\<lparr>headers_get := (headers_get inbound)(''X-Loom-Access-Token'' := None)\<rparr>)"
    by (simp add: parseTenantCredentials_def or_undefined_def Let_def)
  from e show absent: "accessToken (parseTenantCredentials inbound) = None"
    by (simp add: parseTenantCredentials_def or_undefined_def Let_def)
  then show "validateCredentials (parseTenantCredentials inbound) =
        Inl (Error ''Missing credentials. Provide X-Loom-Access-Token header.'')"
    by (simp add: validateCredentials_def)
  from absent have none:
    "\<not> truthy_str (accessToken (credentials (createLoomClient (parseTenantCredentials inbound))))"
    by (simp add: createLoomClient_def)
  note fails = ops_no_token[OF none]
  show "getCurrentUser (createLoomClient (parseTenantCredentials inbound)) fetch_user =
        (Inl no_credentials, [])"
    by (rule fails)
  show "listVideos (createLoomClient (parseTenantCredentials inbound)) fetch_videos params =
        (Inl no_credentials, [])"
    by (rule fails)
  show "getVideo (createLoomClient (parseTenantCredentials inbound)) fetch_video videoId =
        (Inl no_credentials, [])"
    by (rule fails)
  show "updateVideo (createLoomClient (parseTenantCredentials inbound)) fetch_id videoId update_params =
        (Inl no_credentials, [])"
    by (rule fails)
  show "deleteVideo (createLoomClient (parseTenantCredentials inbound)) fetch_any videoId =
        (Inl no_credentials, [])"
    by (rule fails)
  show "getTranscript (createLoomClient (parseTenantCredentials inbound)) fetch_transcript videoId =
        (Inl no_credentials, [])"
    by (rule fails)
  show "getVideoAnalytics (createLoomClient (parseTenantCredentials inbound)) fetch_analytics videoId =
        (Inl no_credentials, [])"
    by (rule fails)
  show "listComments (createLoomClient (parseTenantCredentials inbound)) fetch_comments videoId =
        (Inl no_credentials, [])"
    by (rule fails)
  show "createComment (createLoomClient (parseTenantCredentials inbound)) fetch_comment videoId comment_params =
        (Inl no_credentials, [])"
    by (rule fails)
  show "listFolders (createLoomClient (parseTenantCredentials inbound)) fetch_folders params =
        (Inl no_credentials, [])"
    by (rule fails)
  show "createFolder (createLoomClient (parseTenantCredentials inbound)) fetch_folder name parentId =
        (Inl no_credentials, [])"
    by (rule fails)
  show "getFolder (createLoomClient (parseTenantCredentials inbound)) fetch_folder folderId =
        (Inl no_credentials, [])"
    by (rule fails)
  show "updateFolder (createLoomClient (parseTenantCredentials inbound)) fetch_folder folderId folder_params =
        (Inl no_credentials, [])"
    by (rule fails)
  show "deleteFolder (createLoomClient (parseTenantCredentials inbound)) fetch_any folderId =
        (Inl no_credentials, [])"
    by (rule fails)
  show "listWorkspaces (createLoomClient (parseTenantCredentials inbound)) fetch_workspaces =
        (Inl no_credentials, [])"
    by (rule fails)
  show "getWorkspace (createLoomClient (parseTenantCredentials inbound)) fetch_workspace workspaceId =
        (Inl no_credentials, [])"
    by (rule fails)
  show "listSpaces (createLoomClient (parseTenantCredentials inbound)) fetch_spaces params =
        (Inl no_credentials, [])"
    by (rule fails)
  show "getSpace (createLoomClient (parseTenantCredentials inbound)) fetch_space spaceId =
        (Inl no_credentials, [])"
    by (rule fails)
  show "listSpaceVideos (createLoomClient (parseTenantCredentials inbound)) fetch_videos spaceId params =
        (Inl no_credentials, [])"
    by (rule fails)
  show "addVideoToSpace (createLoomClient (parseTenantCredentials inbound)) fetch_any spaceId videoId =
        (Inl no_credentials, [])"
    by (rule fails)
  show "removeVideoFromSpace (createLoomClient (parseTenantCredentials inbound)) fetch_any spaceId videoId =
        (Inl no_credentials, [])"
    by (rule fails)
  show "getOEmbed (createLoomClient (parseTenantCredentials inbound)) fetch_oembed url oembed_params =
        (Inl no_credentials, [])"
    by (rule fails)
  show "createRecordLink (createLoomClient (parseTenantCredentials inbound)) fetch_link link_params =
        (Inl no_credentials, [])"
    by (rule fails)
  show "getEmbedHtml (createLoomClient (parseTenantCredentials inbound)) fetch_video videoId embed_params =
        (Inl no_credentials, [])"
    by (rule fails)
  show "moveVideoToFolder (createLoomClient (parseTenantCredentials inbound)) fetch_any videoId folderId =
        (Inl no_credentials, [])"
    by (rule fails)
  show "duplicateVideo (createLoomClient (parseTenantCredentials inbound)) fetch_video videoId =
        (Inl no_credentials, [])"
    by (rule fails)
  show "searchVideos (createLoomClient (parseTenantCredentials inbound)) fetch_videos query params =
        (Inl no_credentials, [])"
    by (rule fails)
  show "testConnection (createLoomClient (parseTenantCredentials inbound)) fetch_user =
        (Inr \<lparr>connected = False,
              message = ''No credentials provided. Include X-Loom-Access-Token header.''\<rparr>, [])"
    by (simp add: testConnection_def fails no_credentials_def)
next
  assume e: "headers_get inbound ''X-Loom-Base-URL'' = Some []"
  then show "parseTenantCredentials inbound =
        parseTenantCredentials
          (inbound\<lparr>headers_get := (headers_get inbound)(''X-Loom-Base-URL'' := None)\<rparr>)"
    by (simp add: parseTenantCredentials_def or_undefined_def Let_def)
  from e show absent: "baseUrl (parseTenantCredentials inbound) = None"
    by (simp add: parseTenantCredentials_def or_undefined_def Let_def)
  then show "this_baseUrl (createLoomClient (parseTenantCredentials inbound)) = API_BASE_URL"
    by (simp add: createLoomClient_def)
qed

text \<open>A request with both headers empty.\<close>

theorem empty_header_is_absent_witness:
  "headers_get empty_headers_request ''X-Loom-Access-Token'' = Some [] \<and>
   headers_get empty_headers_request ''X-Loom-Base-URL'' = Some [] \<and>
   parseTenantCredentials empty_headers_request = \<lparr>accessToken = None, baseUrl = None\<rparr> \<and>
   parseTenantCredentials \<lparr>headers_get = no_headers\<rparr> = \<lparr>accessToken = None, baseUrl = None\<rparr> \<and>
   validateCredentials (parseTenantCredentials empty_headers_request) =
     Inl (Error ''Missing credentials. Provide X-Loom-Access-Token header.'') \<and>
   listVideos (createLoomClient (parseTenantCredentials empty_headers_request)) failing_fetch None =
     (Inl (AuthenticationError ''No credentials provided. Include X-Loom-Access-Token header.''), []) \<and>
   this_baseUrl (createLoomClient (parseTenantCredentials empty_headers_request)) =
     ''https://api.loom.com/v1''"
proof -
  have t: "headers_get empty_headers_request ''X-Loom-Access-Token'' = Some []"
    and u: "headers_get empty_headers_request ''X-Loom-Base-URL'' = Some []"
    by (simp_all add: empty_headers_request_def)
  note a = empty_header_is_absent[where inbound = empty_headers_request, THEN conjunct1, THEN mp, OF t]
  note b = empty_header_is_absent[where inbound = empty_headers_request, THEN conjunct2, THEN mp, OF u]
  note token_absent = a[THEN conjunct2, THEN conjunct1]
  note invalid = a[THEN conjunct2, THEN conjunct2, THEN conjunct1]
  note ops_fail = a[THEN conjunct2, THEN conjunct2, THEN conjunct2]
  note url_absent = b[THEN conjunct2, THEN conjunct1]
  note default_url = b[THEN conjunct2, THEN conjunct2]
  have "parseTenantCredentials empty_headers_request = \<lparr>accessToken = None, baseUrl = None\<rparr>"
    by (rule TenantCredentials.equality) (simp_all add: token_absent url_absent)
  moreover have "parseTenantCredentials \<lparr>headers_get = no_headers\<rparr> = \<lparr>accessToken = None, baseUrl = None\<rparr>"
    by (simp add: parseTenantCredentials_def or_undefined_def no_headers_def)
  moreover have "listVideos (createLoomClient (parseTenantCredentials empty_headers_request)) failing_fetch None =
     (Inl (AuthenticationError ''No credentials provided. Include X-Loom-Access-Token header.''), [])"
    by (simp add: ops_fail no_credentials_def)
  moreover have "this_baseUrl (createLoomClient (parseTenantCredentials empty_headers_request)) =
     ''https://api.loom.com/v1''"
    by (simp add: default_url API_BASE_URL_def)
  ultimately show ?thesis
    using t u invalid by simp
qed

text \<open>
  Claim C8 as stated fails for \<open>testConnection\<close>: with an empty token header the call
  returns a result, it does not fail.
\<close>

theorem testConnection_empty_token_counterexample:
  "fst (testConnection (createLoomClient (parseTenantCredentials empty_headers_request)) failing_fetch) =
     Inr \<lparr>connected = False,
          message = ''No credentials provided. Include X-Loom-Access-Token header.''\<rparr>"
  by (simp add: testConnection_def getCurrentUser_def request_def getAuthHeaders_def
      createLoomClient_def parseTenantCredentials_def or_undefined_def empty_headers_request_def)

section \<open>Rate limits\<close>

text \<open>
  Claim C3, amended. With a token, when the server answers with status 429, \<open>request\<close>
  at any endpoint and every operation other than \<open>testConnection\<close> fail with a
  RateLimit error whose retry-after seconds are parsed from the \<open>Retry-After\<close> header when
  it is present and not empty, and are 60 when it is absent or empty.
\<close>

theorem rate_limit_retry_after:
  assumes "accessToken (credentials this) = Some token" and "token \<noteq> []"
  shows "fst (request this (answers 429 h body_any) endpoint options) =
       Inl (RateLimitError ''Rate limit exceeded'' (retry_after_seconds (h ''Retry-After''))) \<and>
     fst (getCurrentUser this (answers 429 h body_user)) =
       Inl (RateLimitError ''Rate limit exceeded'' (retry_after_seconds (h ''Retry-After''))) \<and>
     fst (listVideos this (answers 429 h body_videos) params) =
       Inl (RateLimitError ''Rate limit exceeded'' (retry_after_seconds (h ''Retry-After''))) \<and>
     fst (getVideo this (answers 429 h body_video) videoId) =
       Inl (RateLimitError ''Rate limit exceeded'' (retry_after_seconds (h ''Retry-After''))) \<and>
     fst (updateVideo this (answers 429 h body_id) videoId update_params) =
       Inl (RateLimitError ''Rate limit exceeded'' (retry_after_seconds (h ''Retry-After''))) \<and>
     fst (deleteVideo this (answers 429 h body_any) videoId) =
       Inl (RateLimitError ''Rate limit exceeded'' (retry_after_seconds (h ''Retry-After''))) \<and>
     fst (getTranscript this (answers 429 h body_transcript) videoId) =
       Inl (RateLimitError ''Rate limit exceeded'' (retry_after_seconds (h ''Retry-After''))) \<and>
     fst (getVideoAnalytics this (answers 429 h body_analytics) videoId) =
       Inl (RateLimitError ''Rate limit exceeded'' (retry_after_seconds (h ''Retry-After''))) \<and>
     fst (listComments this (answers 429 h body_comments) videoId) =
       Inl (RateLimitError ''Rate limit exceeded'' (retry_after_seconds (h ''Retry-After''))) \<and>
     fst (createComment this (answers 429 h body_comment) videoId comment_params) =
       Inl (RateLimitError ''Rate limit exceeded'' (retry_after_seconds (h ''Retry-After''))) \<and>
     fst (listFolders this (answers 429 h body_folders) params) =
       Inl (RateLimitError ''Rate limit exceeded'' (retry_after_seconds (h ''Retry-After''))) \<and>
     fst (createFolder this (answers 429 h body_folder) name parentId) =
       Inl (RateLimitError ''Rate limit exceeded'' (retry_after_seconds (h ''Retry-After''))) \<and>
     fst (getFolder this (answers 429 h body_folder) folderId) =
       Inl (RateLimitError ''Rate limit exceeded'' (retry_after_seconds (h ''Retry-After''))) \<and>
     fst (updateFolder this (answers 429 h body_folder) folderId folder_params) =
       Inl (RateLimitError ''Rate limit exceeded'' (retry_after_seconds (h ''Retry-After''))) \<and>
     fst (deleteFolder this (answers 429 h body_any) folderId) =
       Inl (RateLimitError ''Rate limit exceeded'' (retry_after_seconds (h ''Retry-After''))) \<and>
     fst (listWorkspaces this (answers 429 h body_workspaces)) =
       Inl (RateLimitError ''Rate limit exceeded'' (retry_after_seconds (h ''Retry-After''))) \<and>
     fst (getWorkspace this (answers 429 h body_workspace) workspaceId) =
       Inl (RateLimitError ''Rate limit exceeded'' (retry_after_seconds (h ''Retry-After''))) \<and>
     fst (listSpaces this (answers 429 h body_spaces) params) =
       Inl (RateLimitError ''Rate limit exceeded'' (retry_after_seconds (h ''Retry-After''))) \<and>
     fst (getSpace this (answers 429 h body_space) spaceId) =
       Inl (RateLimitError ''Rate limit exceeded'' (retry_after_seconds (h ''Retry-After''))) \<and>
     fst (listSpaceVideos this (answers 429 h body_videos) spaceId params) =
       Inl (RateLimitError ''Rate limit exceeded'' (retry_after_seconds (h ''Retry-After''))) \<and>
     fst (addVideoToSpace this (answers 429 h body_any) spaceId videoId) =
       Inl (RateLimitError ''Rate limit exceeded'' (retry_after_seconds (h ''Retry-After''))) \<and>
     fst (removeVideoFromSpace this (answers 429 h body_any) spaceId videoId) =
       Inl (RateLimitError ''Rate limit exceeded'' (retry_after_seconds (h ''Retry-After''))) \<and>
     fst (getOEmbed this (answers 429 h body_oembed) url oembed_params) =
       Inl (RateLimitError ''Rate limit exceeded'' (retry_after_seconds (h ''Retry-After''))) \<and>
     fst (createRecordLink this (answers 429 h body_link) link_params) =
       Inl (RateLimitError ''Rate limit exceeded'' (retry_after_seconds (h ''Retry-After''))) \<and>
     fst (getEmbedHtml this (answers 429 h body_video) videoId embed_params) =
       Inl (RateLimitError ''Rate limit exceeded'' (retry_after_seconds (h ''Retry-After''))) \<and>
     fst (moveVideoToFolder this (answers 429 h body_any) videoId folderId) =
       Inl (RateLimitError ''Rate limit exceeded'' (retry_after_seconds (h ''Retry-After''))) \<and>
     fst (duplicateVideo this (answers 429 h body_video) videoId) =
       Inl (RateLimitError ''Rate limit exceeded'' (retry_after_seconds (h ''Retry-After''))) \<and>
     fst (searchVideos this (answers 429 h body_videos) query params) =
       Inl (RateLimitError ''Rate limit exceeded'' (retry_after_seconds (h ''Retry-After'')))"
proof -
  note r = request_429[OF assms]
  show ?thesis
    by (intro conjI) (simp_all only: r ops_propagate)
qed

text \<open>
  The header \<open>Retry-After: 30\<close> gives 30; no header gives 60; the header
  \<open>Retry-After: 9007199254740993\<close> gives the nearest Number, \<open>2^53\<close>.
\<close>

theorem rate_limit_retry_after_witness:
  "fst (getVideo sample_client (answers 429 (retry_after (Some ''30'')) (Unparseable [])) ''abc123'') =
     Inl (RateLimitError ''Rate limit exceeded'' (Num 30)) \<and>
   fst (getVideo sample_client (answers 429 (retry_after None) (Unparseable [])) ''abc123'') =
     Inl (RateLimitError ''Rate limit exceeded'' (Num 60)) \<and>
   fst (deleteFolder sample_client (answers 429 (retry_after (Some ''30'')) (Unparseable [])) ''f1'') =
     Inl (RateLimitError ''Rate limit exceeded'' (Num 30)) \<and>
   fst (getVideo sample_client (answers 429 (retry_after (Some ''9007199254740993'')) (Unparseable [])) ''abc123'') =
     Inl (RateLimitError ''Rate limit exceeded'' (Num 9007199254740992))"
proof -
  have ne: "''token-1'' \<noteq> []" by simp
  note r = rate_limit_retry_after[OF sample_client_token ne]
  show ?thesis
    by (simp add: r retry_after_seconds_def retry_after_def eval_parseInt Let_def)
qed

text \<open>
  Claim C3 as stated fails for a \<open>Retry-After\<close> header that is present and empty: the
  value is 60, where parsing the header gives NaN. It also fails for \<open>testConnection\<close>,
  which returns a result on a 429.
\<close>

theorem empty_retry_after_counterexample:
  "parseInt [] = NaN \<and>
   fst (getVideo sample_client (answers 429 (retry_after (Some [])) (Unparseable [])) ''abc123'') =
     Inl (RateLimitError ''Rate limit exceeded'' (Num 60)) \<and>
   fst (testConnection sample_client (answers 429 (retry_after (Some ''30'')) (Unparseable []))) =
     Inr \<lparr>connected = False, message = ''Rate limit exceeded''\<rparr>"
  by (simp add: eval_parseInt testConnection_def getVideo_def getCurrentUser_def request_def
      getAuthHeaders_def sample_client_token answers_def retry_after_def await_then_def Let_def
      split: prod.splits)

text \<open>
  Claim C10, amended. With a token, when the server answers with status 429 and a
  non-empty \<open>Retry-After\<close> header, the RateLimit error of \<open>request\<close> carries the result of
  \<open>parseInt\<close> on the header, which is NaN when the header starts with no integer; the
  default 60 is the value when the header is absent or empty.
\<close>

theorem unparseable_retry_after_is_NaN:
  assumes "accessToken (credentials this) = Some token" and "token \<noteq> []"
  shows "(h ''Retry-After'' = Some v \<and> v \<noteq> [] \<longrightarrow>
            fst (request this (answers 429 h b) endpoint options) =
              Inl (RateLimitError ''Rate limit exceeded'' (parseInt v))) \<and>
         (h ''Retry-After'' = Some v \<and> v \<noteq> [] \<and> parseInt v = NaN \<longrightarrow>
            fst (request this (answers 429 h b) endpoint options) =
              Inl (RateLimitError ''Rate limit exceeded'' NaN)) \<and>
         (h ''Retry-After'' = None \<or> h ''Retry-After'' = Some [] \<longrightarrow>
            fst (request this (answers 429 h b) endpoint options) =
              Inl (RateLimitError ''Rate limit exceeded'' (Num 60)))"
  using assms
  by (auto simp add: request_def getAuthHeaders_truthy Let_def answers_def)

text \<open>
  The header \<open>Retry-After: abc\<close> gives NaN; no header gives 60; the header
  \<open>Retry-After: 9007199254740993\<close> gives the nearest Number, \<open>2^53\<close>.
\<close>

theorem unparseable_retry_after_is_NaN_witness:
  "parseInt ''abc'' = NaN \<and>
   fst (request sample_client (answers 429 (retry_after (Some ''abc'')) (Unparseable [])) ''/me'' no_options) =
     (Inl (RateLimitError ''Rate limit exceeded'' NaN) :: error + unit option) \<and>
   fst (request sample_client (answers 429 (retry_after None) (Unparseable [])) ''/me'' no_options) =
     (Inl (RateLimitError ''Rate limit exceeded'' (Num 60)) :: error + unit option) \<and>
   fst (request sample_client (answers 429 (retry_after (Some ''9007199254740993'')) (Unparseable [])) ''/me'' no_options) =
     (Inl (RateLimitError ''Rate limit exceeded'' (Num 9007199254740992)) :: error + unit option)"
proof -
  have ne: "''token-1'' \<noteq> []" by simp
  have nan: "parseInt ''abc'' = NaN" by (simp add: eval_parseInt Let_def)
  have abc: "retry_after (Some ''abc'') ''Retry-After'' = Some ''abc'' \<and> ''abc'' \<noteq> [] \<and> parseInt ''abc'' = NaN"
    by (simp add: retry_after_def nan)
  have none: "retry_after None ''Retry-After'' = None \<or> retry_after None ''Retry-After'' = Some []"
    by (simp add: retry_after_def)
  note r = unparseable_retry_after_is_NaN[OF sample_client_token ne]
  note unparseable = r[where h = "retry_after (Some ''abc'')" and v = "''abc''",
      THEN conjunct2, THEN conjunct1, THEN mp, OF abc]
  note absent = r[where h = "retry_after None", THEN conjunct2, THEN conjunct2, THEN mp, OF none]
  have big: "retry_after (Some ''9007199254740993'') ''Retry-After'' = Some ''9007199254740993'' \<and>
      ''9007199254740993'' \<noteq> []"
    by (simp add: retry_after_def)
  have rounded: "parseInt ''9007199254740993'' = Num 9007199254740992"
    by (simp add: eval_parseInt Let_def)
  note parsed = r[where h = "retry_after (Some ''9007199254740993'')" and v = "''9007199254740993''",
      THEN conjunct1, THEN mp, OF big]
  show ?thesis by (simp add: nan unparseable absent parsed rounded)
qed

text \<open>
  Claim C10 as stated fails for the empty header: it is present and no integer can be
  parsed from it, yet the value is the default 60.
\<close>

theorem empty_retry_after_default_counterexample:
  "parseInt [] = NaN \<and>
   fst (request sample_client (answers 429 (retry_after (Some [])) (Unparseable [])) ''/me'' no_options) =
     (Inl (RateLimitError ''Rate limit exceeded'' (Num 60)) :: error + unit option)"
  by (simp add: eval_parseInt request_def getAuthHeaders_def sample_client_token answers_def
      retry_after_def Let_def)

section \<open>Other failures\<close>

text \<open>
  Claim C4, amended. With a token, when the server answers with a status that is not
  2xx and none of 429, 401, 403 and 404, \<open>request\<close> at any endpoint and every operation
  other than \<open>testConnection\<close> fail with an API error carrying the status, no error code,
  and as message the \<open>message\<close> field of the JSON body when that field is truthy, else the
  \<open>error\<close> field when that is truthy, else (the body is not JSON, is not an object, or
  holds neither field with a truthy value) the text \<open>API error: <status>\<close>.
\<close>

theorem other_status_is_api_failure:
  assumes "accessToken (credentials this) = Some token" and "token \<noteq> []"
    and "st \<noteq> 429" and "st \<noteq> 401" and "st \<noteq> 403" and "st \<noteq> 404"
    and "st < 200 \<or> 299 < st"
  shows "fst (request this (answers st h body_any) endpoint options) =
       Inl (LoomApiError (failure_text st body_any) st None) \<and>
     fst (getCurrentUser this (answers st h body_user)) =
       Inl (LoomApiError (failure_text st body_user) st None) \<and>
     fst (listVideos this (answers st h body_videos) params) =
       Inl (LoomApiError (failure_text st body_videos) st None) \<and>
     fst (getVideo this (answers st h body_video) videoId) =
       Inl (LoomApiError (failure_text st body_video) st None) \<and>
     fst (updateVideo this (answers st h body_id) videoId update_params) =
       Inl (LoomApiError (failure_text st body_id) st None) \<and>
     fst (deleteVideo this (answers st h body_any) videoId) =
       Inl (LoomApiError (failure_text st body_any) st None) \<and>
     fst (getTranscript this (answers st h body_transcript) videoId) =
       Inl (LoomApiError (failure_text st body_transcript) st None) \<and>
     fst (getVideoAnalytics this (answers st h body_analytics) videoId) =
       Inl (LoomApiError (failure_text st body_analytics) st None) \<and>
     fst (listComments this (answers st h body_comments) videoId) =
       Inl (LoomApiError (failure_text st body_comments) st None) \<and>
     fst (createComment this (answers st h body_comment) videoId comment_params) =
       Inl (LoomApiError (failure_text st body_comment) st None) \<and>
     fst (listFolders this (answers st h body_folders) params) =
       Inl (LoomApiError (failure_text st body_folders) st None) \<and>
     fst (createFolder this (answers st h body_folder) name parentId) =
       Inl (LoomApiError (failure_text st body_folder) st None) \<and>
     fst (getFolder this (answers st h body_folder) folderId) =
       Inl (LoomApiError (failure_text st body_folder) st None) \<and>
     fst (updateFolder this (answers st h body_folder) folderId folder_params) =
       Inl (LoomApiError (failure_text st body_folder) st None) \<and>
     fst (deleteFolder this (answers st h body_any) folderId) =
       Inl (LoomApiError (failure_text st body_any) st None) \<and>
     fst (listWorkspaces this (answers st h body_workspaces)) =
       Inl (LoomApiError (failure_text st body_workspaces) st None) \<and>
     fst (getWorkspace this (answers st h body_workspace) workspaceId) =
       Inl (LoomApiError (failure_text st body_workspace) st None) \<and>
     fst (listSpaces this (answers st h body_spaces) params) =
       Inl (LoomApiError (failure_text st body_spaces) st None) \<and>
     fst (getSpace this (answers st h body_space) spaceId) =
       Inl (LoomApiError (failure_text st body_space) st None) \<and>
     fst (listSpaceVideos this (answers st h body_videos) spaceId params) =
       Inl (LoomApiError (failure_text st body_videos) st None) \<and>
     fst (addVideoToSpace this (answers st h body_any) spaceId videoId) =
       Inl (LoomApiError (failure_text st body_any) st None) \<and>
     fst (removeVideoFromSpace this (answers st h body_any) spaceId videoId) =
       Inl (LoomApiError (failure_text st body_any) st None) \<and>
     fst (getOEmbed this (answers st h body_oembed) url oembed_params) =
       Inl (LoomApiError (failure_text st body_oembed) st None) \<and>
     fst (createRecordLink this (answers st h body_link) link_params) =
       Inl (LoomApiError (failure_text st body_link) st None) \<and>
     fst (getEmbedHtml this (answers st h body_video) videoId embed_params) =
       Inl (LoomApiError (failure_text st body_video) st None) \<and>
     fst (moveVideoToFolder this (answers st h body_any) videoId folderId) =
       Inl (LoomApiError (failure_text st body_any) st None) \<and>
     fst (duplicateVideo this (answers st h body_video) videoId) =
       Inl (LoomApiError (failure_text st body_video) st None) \<and>
     fst (searchVideos this (answers st h body_videos) query params) =
       Inl (LoomApiError (failure_text st body_videos) st None)"
proof -
  note r = request_other_status[OF assms]
  show ?thesis
    by (intro conjI) (simp_all only: r ops_propagate)
qed

text \<open>
  Status 500 with the bodies \<open>{"message": "boom"}\<close>, \<open>{"message": null, "error": "bad"}\<close>,
  a text that is not JSON, and \<open>null\<close>.
\<close>

theorem other_status_is_api_failure_witness:
  "fst (deleteVideo sample_client
          (answers 500 no_headers (Parsed (JObj [(''message'', JStr ''boom'')]) ())) ''abc123'') =
     Inl (LoomApiError (JStr ''boom'') 500 None) \<and>
   fst (deleteVideo sample_client
          (answers 500 no_headers (Parsed (JObj [(''message'', JNull), (''error'', JStr ''bad'')]) ()))
          ''abc123'') =
     Inl (LoomApiError (JStr ''bad'') 500 None) \<and>
   fst (getVideo sample_client (answers 500 no_headers (Unparseable ''Unexpected token'')) ''abc123'') =
     Inl (LoomApiError (JStr ''API error: 500'') 500 None) \<and>
   fst (deleteVideo sample_client (answers 500 no_headers (Parsed JNull ())) ''abc123'') =
     Inl (LoomApiError (JStr ''API error: 500'') 500 None)"
proof -
  have ne: "''token-1'' \<noteq> []" by simp
  have st: "(500::nat) \<noteq> 429" "(500::nat) \<noteq> 401" "(500::nat) \<noteq> 403" "(500::nat) \<noteq> 404"
    "(500::nat) < 200 \<or> 299 < (500::nat)"
    by simp_all
  note r = other_status_is_api_failure[OF sample_client_token ne st]
  show ?thesis
    by (simp add: r failure_text_def truthy_field_def magnitude_text_500)
qed

text \<open>
  Claim C4 as stated fails for the body \<open>{"message": ""}\<close>: it is JSON and has the
  \<open>message\<close> field, yet the failure text is \<open>API error: 500\<close>. It also fails for
  \<open>testConnection\<close>, which returns a result.
\<close>

theorem empty_message_counterexample:
  "get_prop empty_message ''message'' = Some (JStr []) \<and>
   fst (deleteVideo sample_client (answers 500 no_headers (Parsed empty_message ())) ''abc123'') =
     Inl (LoomApiError (JStr ''API error: 500'') 500 None) \<and>
   fst (testConnection sample_client (answers 500 no_headers (Unparseable ''Unexpected token''))) =
     Inr \<lparr>connected = False, message = ''API error: 500''\<rparr>"
  by (simp add: empty_message_def testConnection_def deleteVideo_def getCurrentUser_def request_def
      getAuthHeaders_def sample_client_token answers_def await_then_def Let_def resp_ok_def
      api_error_message_def magnitude_text_500 split: prod.splits)

end
